theory Spec2Isabelle
  imports Complex_Main
begin

section \<open>JavaScript values as the server sees them\<close>

text \<open>
  The server of \<^verbatim>\<open>src/index.ts\<close> works on values produced by \<^verbatim>\<open>JSON.parse\<close>
  (the request body, the upstream responses) and on header strings. A JSON value is a
  \<open>json\<close>; a JavaScript expression that may be \<^verbatim>\<open>undefined\<close> is a \<open>json option\<close>
  with \<open>None\<close> for \<^verbatim>\<open>undefined\<close>. An object is the list of its properties in order,
  with distinct keys (as \<^verbatim>\<open>JSON.parse\<close> builds it). Numbers are the finite ones, as
  rationals.
\<close>

datatype json =
    JNull
  | JBool bool
  | JNum rat
  | JStr string
  | JArr "json list"
  | JObj "(string \<times> json) list"

text \<open>The result of a numeric conversion: a finite number, an infinity or \<^verbatim>\<open>NaN\<close>.\<close>

datatype jsnum = Fin rat | PosInf | NegInf | NaN

text \<open>A thrown value: an \<^verbatim>\<open>Error\<close> object with its \<^verbatim>\<open>name\<close> and \<^verbatim>\<open>message\<close>.\<close>

datatype js_error = JsError (err_name: string) (err_message: string)

text \<open>An outbound request: what \<^verbatim>\<open>fetch(url, init)\<close> is called with. The query is the
  list of pairs of the \<^verbatim>\<open>URLSearchParams\<close> appended to the URL; the body is the object
  literal handed to \<^verbatim>\<open>JSON.stringify\<close> (a property whose value is \<open>None\<close> is dropped
  by the serialisation).\<close>

record http_call =
  url :: string
  verb :: string
  query :: "(string \<times> string) list"
  call_headers :: "(string \<times> string) list"
  call_body :: "(string \<times> json option) list option"

text \<open>
  What the program takes from its runtime and does not define: the printing of a number,
  the reading of a string as a number, and the network. \<open>fetch_json\<close> is
  \<^verbatim>\<open>fetch\<close> followed by \<^verbatim>\<open>response.json()\<close>: on the state \<open>'w\<close> of the outside world it
  either throws (\<open>Inl\<close>) or yields the parsed body (\<open>Inr\<close>).
\<close>

record 'w runtime =
  number_toString :: "rat \<Rightarrow> string"
  string_toNumber :: "string \<Rightarrow> jsnum"
  fetch_json :: "'w \<Rightarrow> http_call \<Rightarrow> (js_error + json) \<times> 'w"

subsection \<open>Truthiness, \<^verbatim>\<open>||\<close>, property reads\<close>

fun truthy :: "json \<Rightarrow> bool" where
  "truthy JNull = False"
| "truthy (JBool b) = b"
| "truthy (JNum n) = (n \<noteq> 0)"
| "truthy (JStr s) = (s \<noteq> [])"
| "truthy (JArr xs) = True"
| "truthy (JObj kvs) = True"

definition truthy_val :: "json option \<Rightarrow> bool" where
  "truthy_val v = (case v of None \<Rightarrow> False | Some j \<Rightarrow> truthy j)"

definition truthy_str :: "string option \<Rightarrow> bool" where
  "truthy_str v = (case v of None \<Rightarrow> False | Some s \<Rightarrow> s \<noteq> [])"

text \<open>\<^verbatim>\<open>v || d\<close> for a default \<open>d\<close> that is a JSON value.\<close>

definition or_else :: "json option \<Rightarrow> json \<Rightarrow> json" where
  "or_else v d = (case v of None \<Rightarrow> d | Some j \<Rightarrow> if truthy j then j else d)"

text \<open>A default parameter value applies to \<^verbatim>\<open>undefined\<close> only.\<close>

definition default_param :: "json option \<Rightarrow> json \<Rightarrow> json" where
  "default_param v d = (case v of None \<Rightarrow> d | Some j \<Rightarrow> j)"

text \<open>
  \<^verbatim>\<open>v.k\<close> on a value that is neither \<^verbatim>\<open>null\<close> nor \<^verbatim>\<open>undefined\<close>, for the property
  names the source reads (\<^verbatim>\<open>method\<close>, \<^verbatim>\<open>params\<close>, \<^verbatim>\<open>id\<close>, \<^verbatim>\<open>name\<close>, \<^verbatim>\<open>arguments\<close>,
  the tool argument names, \<^verbatim>\<open>ok\<close>, \<^verbatim>\<open>channel\<close>, \<^verbatim>\<open>is_archived\<close>): none of them is a
  property of an array, a string, a number or a boolean.
\<close>

fun member :: "json \<Rightarrow> string \<Rightarrow> json option" where
  "member (JObj kvs) k = map_of kvs k"
| "member v k = None"

definition cannot_read :: "string \<Rightarrow> string \<Rightarrow> js_error" where
  "cannot_read what k =
     JsError ''TypeError'' (''Cannot read properties of '' @ what @ '' (reading '' @ [CHR 0x27] @ k @ [CHR 0x27] @ '')'')"

text \<open>\<^verbatim>\<open>v.k\<close>: throws on \<^verbatim>\<open>undefined\<close> and on \<^verbatim>\<open>null\<close>.\<close>

definition get_prop :: "json option \<Rightarrow> string \<Rightarrow> js_error + json option" where
  "get_prop v k =
     (case v of
        None \<Rightarrow> Inl (cannot_read ''undefined'' k)
      | Some JNull \<Rightarrow> Inl (cannot_read ''null'' k)
      | Some j \<Rightarrow> Inr (member j k))"

text \<open>\<^verbatim>\<open>v?.k\<close>: \<^verbatim>\<open>undefined\<close> on \<^verbatim>\<open>undefined\<close> and on \<^verbatim>\<open>null\<close>.\<close>

definition opt_prop :: "json option \<Rightarrow> string \<Rightarrow> json option" where
  "opt_prop v k = (case v of None \<Rightarrow> None | Some j \<Rightarrow> member j k)"

subsection \<open>Conversions to string and to number\<close>

fun join_comma :: "string list \<Rightarrow> string" where
  "join_comma [] = []"
| "join_comma [x] = x"
| "join_comma (x # y # ys) = x @ '','' @ join_comma (y # ys)"

text \<open>
  The conversion of an object to a primitive value calls its \<^verbatim>\<open>toString\<close> and
  \<^verbatim>\<open>valueOf\<close> methods. An object built by \<^verbatim>\<open>JSON.parse\<close> holds no function, so an own
  property named \<^verbatim>\<open>toString\<close> hides the inherited method and the conversion throws;
  without one the object prints as \<^verbatim>\<open>[object Object]\<close>.
\<close>

definition not_primitive :: js_error where
  "not_primitive = JsError ''TypeError'' ''Cannot convert object to primitive value''"

definition own_toString :: "(string \<times> json) list \<Rightarrow> bool" where
  "own_toString kvs = (map_of kvs ''toString'' \<noteq> None)"

text \<open>The results of a sequence of conversions made one after the other: the first
  error thrown, or all the values.\<close>

fun first_thrown :: "(js_error + 'a) list \<Rightarrow> js_error + 'a list" where
  "first_thrown [] = Inr []"
| "first_thrown (Inl e # rs) = Inl e"
| "first_thrown (Inr x # rs) =
     (case first_thrown rs of Inl e \<Rightarrow> Inl e | Inr xs \<Rightarrow> Inr (x # xs))"

text \<open>\<^verbatim>\<open>String(v)\<close>, as a template literal and \<^verbatim>\<open>URLSearchParams\<close> apply it. An array
  joins its elements with commas, converting them in order, \<^verbatim>\<open>null\<close> elements printing
  as the empty string.\<close>

fun js_String :: "'w runtime \<Rightarrow> json \<Rightarrow> js_error + string" where
  "js_String rt JNull = Inr ''null''"
| "js_String rt (JBool b) = Inr (if b then ''true'' else ''false'')"
| "js_String rt (JNum n) = Inr (number_toString rt n)"
| "js_String rt (JStr s) = Inr s"
| "js_String rt (JArr xs) =
     (case first_thrown (map (\<lambda>x. if x = JNull then Inr [] else js_String rt x) xs) of
        Inl e \<Rightarrow> Inl e
      | Inr parts \<Rightarrow> Inr (join_comma parts))"
| "js_String rt (JObj kvs) =
     (if own_toString kvs then Inl not_primitive else Inr ''[object Object]'')"

definition to_String :: "'w runtime \<Rightarrow> json option \<Rightarrow> js_error + string" where
  "to_String rt v = (case v of None \<Rightarrow> Inr ''undefined'' | Some j \<Rightarrow> js_String rt j)"

text \<open>\<^verbatim>\<open>limit.toString()\<close> on a value that is not \<^verbatim>\<open>undefined\<close>: throws on \<^verbatim>\<open>null\<close>, and
  on an object whose own \<^verbatim>\<open>toString\<close> property is there to be called and is no
  function.\<close>

fun limit_toString :: "'w runtime \<Rightarrow> json \<Rightarrow> js_error + string" where
  "limit_toString rt JNull = Inl (cannot_read ''null'' ''toString'')"
| "limit_toString rt (JObj kvs) =
     (if own_toString kvs then Inl (JsError ''TypeError'' ''limit.toString is not a function'')
      else Inr ''[object Object]'')"
| "limit_toString rt v = js_String rt v"

text \<open>\<^verbatim>\<open>ToNumber\<close>, which \<^verbatim>\<open>Math.min\<close> applies to its arguments.\<close>

fun to_Number :: "'w runtime \<Rightarrow> json \<Rightarrow> js_error + jsnum" where
  "to_Number rt JNull = Inr (Fin 0)"
| "to_Number rt (JBool b) = Inr (Fin (if b then 1 else 0))"
| "to_Number rt (JNum n) = Inr (Fin n)"
| "to_Number rt (JStr s) = Inr (string_toNumber rt s)"
| "to_Number rt (JArr xs) =
     (case js_String rt (JArr xs) of
        Inl e \<Rightarrow> Inl e
      | Inr t \<Rightarrow> Inr (string_toNumber rt t))"
| "to_Number rt (JObj kvs) = (if own_toString kvs then Inl not_primitive else Inr NaN)"

fun math_min :: "jsnum \<Rightarrow> jsnum \<Rightarrow> jsnum" where
  "math_min NaN b = NaN"
| "math_min a NaN = NaN"
| "math_min NegInf b = NegInf"
| "math_min a NegInf = NegInf"
| "math_min PosInf b = b"
| "math_min a PosInf = a"
| "math_min (Fin x) (Fin y) = Fin (min x y)"

fun jsnum_toString :: "'w runtime \<Rightarrow> jsnum \<Rightarrow> string" where
  "jsnum_toString rt (Fin r) = number_toString rt r"
| "jsnum_toString rt PosInf = ''Infinity''"
| "jsnum_toString rt NegInf = ''-Infinity''"
| "jsnum_toString rt NaN = ''NaN''"

text \<open>\<^verbatim>\<open>String(error)\<close> and \<^verbatim>\<open>error.message || String(error)\<close>.\<close>

definition error_toString :: "js_error \<Rightarrow> string" where
  "error_toString e =
     (if err_name e = [] then err_message e
      else if err_message e = [] then err_name e
      else err_name e @ '': '' @ err_message e)"

definition error_text :: "js_error \<Rightarrow> string" where
  "error_text e = (if err_message e \<noteq> [] then err_message e else error_toString e)"

subsection \<open>\<^verbatim>\<open>split(",")\<close> and \<^verbatim>\<open>trim()\<close>\<close>

fun split_comma :: "string \<Rightarrow> string list" where
  "split_comma [] = [[]]"
| "split_comma (c # cs) =
     (if c = CHR '','' then [] # split_comma cs
      else (case split_comma cs of [] \<Rightarrow> [[c]] | p # ps \<Rightarrow> (c # p) # ps))"

text \<open>The white space of \<^verbatim>\<open>trim\<close> among the characters a header can hold: tab, line feed,
  vertical tab, form feed, carriage return, space and no-break space.\<close>

definition is_space :: "char \<Rightarrow> bool" where
  "is_space c = (c \<in> set [CHR 0x09, CHR 0x0A, CHR 0x0B, CHR 0x0C, CHR 0x0D, CHR 0x20, CHR 0xA0])"

definition trim :: "string \<Rightarrow> string" where
  "trim s = rev (dropWhile is_space (rev (dropWhile is_space s)))"

section \<open>Effects: the network and the console\<close>

datatype level = Console_log | Console_warn | Console_error

text \<open>An argument of a console call: a string, the text \<^verbatim>\<open>JSON.stringify(v, null, 2)\<close>
  of a value, or a caught error.\<close>

datatype log_arg = Text string | Json_text "json option" | Thrown js_error

type_synonym log_entry = "level \<times> log_arg list"

text \<open>The state a request runs in: the outside world, the outbound requests issued so
  far (oldest first) and the console output so far.\<close>

record 'w world =
  upstream :: 'w
  issued :: "http_call list"
  console :: "log_entry list"

definition console_out :: "level \<Rightarrow> log_arg list \<Rightarrow> 'w world \<Rightarrow> 'w world" where
  "console_out l args s = s\<lparr>console := console s @ [(l, args)]\<rparr>"

text \<open>\<^verbatim>\<open>(await fetch(url, init)).json()\<close>.\<close>

definition fetch :: "'w runtime \<Rightarrow> http_call \<Rightarrow> 'w world \<Rightarrow> (js_error + json) \<times> 'w world" where
  "fetch rt c s =
     (case fetch_json rt (upstream s) c of
        (r, w) \<Rightarrow> (r, s\<lparr>upstream := w, issued := issued s @ [c]\<rparr>))"

section \<open>\<^verbatim>\<open>SlackClient\<close>\<close>

record slack_client =
  botHeaders :: "(string \<times> string) list"
  teamId :: string
  channelIds :: "string option"

definition new_SlackClient :: "string \<Rightarrow> string \<Rightarrow> string option \<Rightarrow> slack_client" where
  "new_SlackClient botToken team ids =
     \<lparr>botHeaders = [(''Authorization'', ''Bearer '' @ botToken),
                    (''Content-Type'', ''application/json'')],
      teamId = team,
      channelIds = ids\<rparr>"

definition get_call :: "slack_client \<Rightarrow> string \<Rightarrow> (string \<times> string) list \<Rightarrow> http_call" where
  "get_call c u params =
     \<lparr>url = u, verb = ''GET'', query = params, call_headers = botHeaders c, call_body = None\<rparr>"

definition post_call :: "slack_client \<Rightarrow> string \<Rightarrow> (string \<times> json option) list \<Rightarrow> http_call" where
  "post_call c u props =
     \<lparr>url = u, verb = ''POST'', query = [], call_headers = botHeaders c, call_body = Some props\<rparr>"

text \<open>\<^verbatim>\<open>Math.min(limit, 200)\<close> for \<^verbatim>\<open>limit: number = 100\<close>.\<close>

definition capped_limit :: "'w runtime \<Rightarrow> json option \<Rightarrow> js_error + jsnum" where
  "capped_limit rt limit =
     (case to_Number rt (default_param limit (JNum 100)) of
        Inl e \<Rightarrow> Inl e
      | Inr x \<Rightarrow> Inr (math_min x (Fin 200)))"

text \<open>\<^verbatim>\<open>if (cursor) params.append("cursor", cursor)\<close>: the pairs appended.\<close>

definition cursor_param :: "'w runtime \<Rightarrow> json option \<Rightarrow> js_error + (string \<times> string) list" where
  "cursor_param rt cursor =
     (if truthy_val cursor then
        (case to_String rt cursor of
           Inl e \<Rightarrow> Inl e
         | Inr t \<Rightarrow> Inr [(''cursor'', t)])
      else Inr [])"

text \<open>A request whose parameters may throw while they are built: nothing is sent then.\<close>

definition fetch_built ::
  "'w runtime \<Rightarrow> js_error + http_call \<Rightarrow> 'w world \<Rightarrow> (js_error + json) \<times> 'w world"
where
  "fetch_built rt built s = (case built of Inl e \<Rightarrow> (Inl e, s) | Inr c \<Rightarrow> fetch rt c s)"

subsection \<open>\<^verbatim>\<open>getChannels\<close>\<close>

definition list_call ::
  "'w runtime \<Rightarrow> slack_client \<Rightarrow> json option \<Rightarrow> json option \<Rightarrow> js_error + http_call"
where
  "list_call rt c limit cursor =
     (case capped_limit rt limit of
        Inl e \<Rightarrow> Inl e
      | Inr l \<Rightarrow>
          (case cursor_param rt cursor of
             Inl e \<Rightarrow> Inl e
           | Inr p \<Rightarrow>
               Inr (get_call c ''https://slack.com/api/conversations.list''
                      ([(''types'', ''public_channel,private_channel''),
                        (''exclude_archived'', ''true''),
                        (''limit'', jsnum_toString rt l),
                        (''team_id'', teamId c)] @ p))))"

definition info_call :: "slack_client \<Rightarrow> string \<Rightarrow> http_call" where
  "info_call c channelId =
     get_call c ''https://slack.com/api/conversations.info'' [(''channel'', channelId)]"

text \<open>
  \<^verbatim>\<open>if (data.ok && data.channel && !data.channel.is_archived) channels.push(data.channel)\<close>:
  the channels to append for one lookup result. Reading \<^verbatim>\<open>data.ok\<close> throws when the
  body is \<^verbatim>\<open>null\<close>; \<^verbatim>\<open>data.channel\<close> is truthy where \<^verbatim>\<open>is_archived\<close> is read.
\<close>

definition pushed :: "json \<Rightarrow> js_error + json list" where
  "pushed data =
     (case get_prop (Some data) ''ok'' of
        Inl e \<Rightarrow> Inl e
      | Inr ok \<Rightarrow>
          (if \<not> truthy_val ok then Inr []
           else (case member data ''channel'' of
                   None \<Rightarrow> Inr []
                 | Some ch \<Rightarrow>
                     if truthy ch \<and> \<not> truthy_val (member ch ''is_archived'')
                     then Inr [ch] else Inr [])))"

text \<open>The \<^verbatim>\<open>for (const channelId of predefinedChannelIdsArray)\<close> loop, with the
  \<^verbatim>\<open>channels\<close> array collected so far.\<close>

fun lookup_loop ::
  "'w runtime \<Rightarrow> slack_client \<Rightarrow> string list \<Rightarrow> json list \<Rightarrow> 'w world \<Rightarrow> (js_error + json list) \<times> 'w world"
where
  "lookup_loop rt c [] channels s = (Inr channels, s)"
| "lookup_loop rt c (channelId # rest) channels s =
     (case fetch rt (info_call c channelId) s of
        (Inl e, s') \<Rightarrow> (Inl e, s')
      | (Inr data, s') \<Rightarrow>
          (case pushed data of
             Inl e \<Rightarrow> (Inl e, s')
           | Inr chs \<Rightarrow> lookup_loop rt c rest (channels @ chs) s'))"

definition channels_result :: "json list \<Rightarrow> json" where
  "channels_result channels =
     JObj [(''ok'', JBool True),
           (''channels'', JArr channels),
           (''response_metadata'', JObj [(''next_cursor'', JStr [])])]"

definition getChannels ::
  "'w runtime \<Rightarrow> slack_client \<Rightarrow> json option \<Rightarrow> json option \<Rightarrow> 'w world \<Rightarrow> (js_error + json) \<times> 'w world"
where
  "getChannels rt c limit cursor s =
     (case channelIds c of
        None \<Rightarrow> fetch_built rt (list_call rt c limit cursor) s
      | Some predefinedChannelIds \<Rightarrow>
          if predefinedChannelIds = [] then fetch_built rt (list_call rt c limit cursor) s
          else (case lookup_loop rt c (map trim (split_comma predefinedChannelIds)) [] s of
                  (Inl e, s') \<Rightarrow> (Inl e, s')
                | (Inr channels, s') \<Rightarrow> (Inr (channels_result channels), s')))"

subsection \<open>The one-call methods\<close>

definition postMessage ::
  "'w runtime \<Rightarrow> slack_client \<Rightarrow> json option \<Rightarrow> json option \<Rightarrow> 'w world \<Rightarrow> (js_error + json) \<times> 'w world"
where
  "postMessage rt c channel_id text s =
     fetch rt (post_call c ''https://slack.com/api/chat.postMessage''
                 [(''channel'', channel_id), (''text'', text)]) s"

definition postReply ::
  "'w runtime \<Rightarrow> slack_client \<Rightarrow> json option \<Rightarrow> json option \<Rightarrow> json option \<Rightarrow> 'w world
     \<Rightarrow> (js_error + json) \<times> 'w world"
where
  "postReply rt c channel_id thread_ts text s =
     fetch rt (post_call c ''https://slack.com/api/chat.postMessage''
                 [(''channel'', channel_id), (''thread_ts'', thread_ts), (''text'', text)]) s"

definition addReaction ::
  "'w runtime \<Rightarrow> slack_client \<Rightarrow> json option \<Rightarrow> json option \<Rightarrow> json option \<Rightarrow> 'w world
     \<Rightarrow> (js_error + json) \<times> 'w world"
where
  "addReaction rt c channel_id timestamp reaction s =
     fetch rt (post_call c ''https://slack.com/api/reactions.add''
                 [(''channel'', channel_id), (''timestamp'', timestamp), (''name'', reaction)]) s"

text \<open>\<^verbatim>\<open>limit.toString()\<close> is evaluated in the object literal, before
  \<^verbatim>\<open>URLSearchParams\<close> converts \<^verbatim>\<open>channel_id\<close>.\<close>

definition history_call ::
  "'w runtime \<Rightarrow> slack_client \<Rightarrow> json option \<Rightarrow> json option \<Rightarrow> js_error + http_call"
where
  "history_call rt c channel_id limit =
     (case limit_toString rt (default_param limit (JNum 10)) of
        Inl e \<Rightarrow> Inl e
      | Inr l \<Rightarrow>
          (case to_String rt channel_id of
             Inl e \<Rightarrow> Inl e
           | Inr ch \<Rightarrow>
               Inr (get_call c ''https://slack.com/api/conversations.history''
                      [(''channel'', ch), (''limit'', l)])))"

definition getChannelHistory ::
  "'w runtime \<Rightarrow> slack_client \<Rightarrow> json option \<Rightarrow> json option \<Rightarrow> 'w world \<Rightarrow> (js_error + json) \<times> 'w world"
where
  "getChannelHistory rt c channel_id limit s = fetch_built rt (history_call rt c channel_id limit) s"

definition replies_call ::
  "'w runtime \<Rightarrow> slack_client \<Rightarrow> json option \<Rightarrow> json option \<Rightarrow> js_error + http_call"
where
  "replies_call rt c channel_id thread_ts =
     (case to_String rt channel_id of
        Inl e \<Rightarrow> Inl e
      | Inr ch \<Rightarrow>
          (case to_String rt thread_ts of
             Inl e \<Rightarrow> Inl e
           | Inr ts \<Rightarrow>
               Inr (get_call c ''https://slack.com/api/conversations.replies''
                      [(''channel'', ch), (''ts'', ts)])))"

definition getThreadReplies ::
  "'w runtime \<Rightarrow> slack_client \<Rightarrow> json option \<Rightarrow> json option \<Rightarrow> 'w world \<Rightarrow> (js_error + json) \<times> 'w world"
where
  "getThreadReplies rt c channel_id thread_ts s =
     fetch_built rt (replies_call rt c channel_id thread_ts) s"

definition users_call ::
  "'w runtime \<Rightarrow> slack_client \<Rightarrow> json option \<Rightarrow> json option \<Rightarrow> js_error + http_call"
where
  "users_call rt c limit cursor =
     (case capped_limit rt limit of
        Inl e \<Rightarrow> Inl e
      | Inr l \<Rightarrow>
          (case cursor_param rt cursor of
             Inl e \<Rightarrow> Inl e
           | Inr p \<Rightarrow>
               Inr (get_call c ''https://slack.com/api/users.list''
                      ([(''limit'', jsnum_toString rt l), (''team_id'', teamId c)] @ p))))"

definition getUsers ::
  "'w runtime \<Rightarrow> slack_client \<Rightarrow> json option \<Rightarrow> json option \<Rightarrow> 'w world \<Rightarrow> (js_error + json) \<times> 'w world"
where
  "getUsers rt c limit cursor s = fetch_built rt (users_call rt c limit cursor) s"

definition profile_call :: "'w runtime \<Rightarrow> slack_client \<Rightarrow> json option \<Rightarrow> js_error + http_call" where
  "profile_call rt c user_id =
     (case to_String rt user_id of
        Inl e \<Rightarrow> Inl e
      | Inr u \<Rightarrow>
          Inr (get_call c ''https://slack.com/api/users.profile.get''
                 [(''user'', u), (''include_labels'', ''true'')]))"

definition getUserProfile ::
  "'w runtime \<Rightarrow> slack_client \<Rightarrow> json option \<Rightarrow> 'w world \<Rightarrow> (js_error + json) \<times> 'w world"
where
  "getUserProfile rt c user_id s = fetch_built rt (profile_call rt c user_id) s"

section \<open>The tool list and \<^verbatim>\<open>handleToolCall\<close>\<close>

definition getToolsList :: json where
  "getToolsList =
     JArr [
       JObj [
         (''name'', JStr ''slack_list_channels''),
         (''description'',
            JStr ''List public and private channels that the bot is a member of, or pre-defined channels in the workspace with pagination''),
         (''inputSchema'',
            JObj [
           (''type'', JStr ''object''),
           (''properties'',
              JObj [
             (''limit'',
                JObj [
               (''type'', JStr ''number''),
               (''description'',
                  JStr ''Maximum number of channels to return (default 100, max 200)''),
               (''default'', JNum 100)]),
             (''cursor'',
                JObj [
               (''type'', JStr ''string''),
               (''description'', JStr ''Pagination cursor for next page of results'')])])])],
       JObj [
         (''name'', JStr ''slack_post_message''),
         (''description'',
            JStr ''Post a new message to a Slack channel or direct message to user''),
         (''inputSchema'',
            JObj [
           (''type'', JStr ''object''),
           (''properties'',
              JObj [
             (''channel_id'',
                JObj [
               (''type'', JStr ''string''),
               (''description'', JStr ''The ID of the channel or user to post to'')]),
             (''text'',
                JObj [
               (''type'', JStr ''string''),
               (''description'', JStr ''The message text to post'')])]),
           (''required'', JArr [JStr ''channel_id'', JStr ''text''])])],
       JObj [
         (''name'', JStr ''slack_reply_to_thread''),
         (''description'', JStr ''Reply to a specific message thread in Slack''),
         (''inputSchema'',
            JObj [
           (''type'', JStr ''object''),
           (''properties'',
              JObj [
             (''channel_id'',
                JObj [
               (''type'', JStr ''string''),
               (''description'', JStr ''The ID of the channel containing the thread'')]),
             (''thread_ts'',
                JObj [
               (''type'', JStr ''string''),
               (''description'',
                  JStr ''The timestamp of the parent message in the format '1234567890.123456'. Timestamps in the format without the period can be converted by adding the period such that 6 numbers come after it.'')]),
             (''text'',
                JObj [
               (''type'', JStr ''string''),
               (''description'', JStr ''The reply text'')])]),
           (''required'', JArr [JStr ''channel_id'', JStr ''thread_ts'', JStr ''text''])])],
       JObj [
         (''name'', JStr ''slack_add_reaction''),
         (''description'', JStr ''Add a reaction emoji to a message''),
         (''inputSchema'',
            JObj [
           (''type'', JStr ''object''),
           (''properties'',
              JObj [
             (''channel_id'',
                JObj [
               (''type'', JStr ''string''),
               (''description'', JStr ''The ID of the channel containing the message'')]),
             (''timestamp'',
                JObj [
               (''type'', JStr ''string''),
               (''description'', JStr ''The timestamp of the message to react to'')]),
             (''reaction'',
                JObj [
               (''type'', JStr ''string''),
               (''description'', JStr ''The name of the emoji reaction (without ::)'')])]),
           (''required'',
              JArr [JStr ''channel_id'', JStr ''timestamp'', JStr ''reaction''])])],
       JObj [
         (''name'', JStr ''slack_get_channel_history''),
         (''description'', JStr ''Get recent messages from a channel''),
         (''inputSchema'',
            JObj [
           (''type'', JStr ''object''),
           (''properties'',
              JObj [
             (''channel_id'',
                JObj [
               (''type'', JStr ''string''),
               (''description'', JStr ''The ID of the channel'')]),
             (''limit'',
                JObj [
               (''type'', JStr ''number''),
               (''description'', JStr ''Number of messages to retrieve (default 10)''),
               (''default'', JNum 10)])]),
           (''required'', JArr [JStr ''channel_id''])])],
       JObj [
         (''name'', JStr ''slack_get_thread_replies''),
         (''description'', JStr ''Get all replies in a message thread''),
         (''inputSchema'',
            JObj [
           (''type'', JStr ''object''),
           (''properties'',
              JObj [
             (''channel_id'',
                JObj [
               (''type'', JStr ''string''),
               (''description'', JStr ''The ID of the channel containing the thread'')]),
             (''thread_ts'',
                JObj [
               (''type'', JStr ''string''),
               (''description'',
                  JStr ''The timestamp of the parent message in the format '1234567890.123456'. Timestamps in the format without the period can be converted by adding the period such that 6 numbers come after it.'')])]),
           (''required'', JArr [JStr ''channel_id'', JStr ''thread_ts''])])],
       JObj [
         (''name'', JStr ''slack_get_users''),
         (''description'',
            JStr ''Get a list of all users in the workspace with their basic profile information''),
         (''inputSchema'',
            JObj [
           (''type'', JStr ''object''),
           (''properties'',
              JObj [
             (''cursor'',
                JObj [
               (''type'', JStr ''string''),
               (''description'', JStr ''Pagination cursor for next page of results'')]),
             (''limit'',
                JObj [
               (''type'', JStr ''number''),
               (''description'',
                  JStr ''Maximum number of users to return (default 100, max 200)''),
               (''default'', JNum 100)])])])],
       JObj [
         (''name'', JStr ''slack_get_user_profile''),
         (''description'', JStr ''Get detailed profile information for a specific user''),
         (''inputSchema'',
            JObj [
           (''type'', JStr ''object''),
           (''properties'',
              JObj [
             (''user_id'',
                JObj [
               (''type'', JStr ''string''),
               (''description'', JStr ''The ID of the user'')])]),
           (''required'', JArr [JStr ''user_id''])])]]"

text \<open>The string \<^verbatim>\<open>JSON.stringify(v, null, 2)\<close>, kept as the value it serialises: a
  text parses as \<open>v\<close> exactly when it is \<open>JSON_stringify v\<close>.\<close>

datatype js_text = JSON_stringify json

record content_item =
  item_type :: string
  item_text :: js_text

record tool_result =
  content :: "content_item list"

definition text_content :: "json \<Rightarrow> tool_result" where
  "text_content v = \<lparr>content = [\<lparr>item_type = ''text'', item_text = JSON_stringify v\<rparr>]\<rparr>"

definition failed_payload :: "js_error \<Rightarrow> json" where
  "failed_payload e = JObj [(''error'', JStr (error_text e)), (''status'', JStr ''failed'')]"

text \<open>
  The body of the \<^verbatim>\<open>try\<close> block up to \<^verbatim>\<open>response\<close>: the \<^verbatim>\<open>switch\<close> on the tool name
  (strict equality with each string literal). Each case reads its first argument with
  \<^verbatim>\<open>args.k\<close>, which throws when \<^verbatim>\<open>args\<close> is \<^verbatim>\<open>null\<close>; the later reads are on the
  same value and cannot throw. In the \<^verbatim>\<open>default\<close> case the template literal converts
  the name before the \<^verbatim>\<open>Error\<close> is built, and throws when the conversion does.
\<close>

definition switch_tool ::
  "'w runtime \<Rightarrow> json option \<Rightarrow> json \<Rightarrow> slack_client \<Rightarrow> 'w world \<Rightarrow> (js_error + json) \<times> 'w world"
where
  "switch_tool rt toolName args slackClient s =
     (if toolName = Some (JStr ''slack_list_channels'') then
        (case get_prop (Some args) ''limit'' of
           Inl e \<Rightarrow> (Inl e, s)
         | Inr limit \<Rightarrow> getChannels rt slackClient limit (member args ''cursor'') s)
      else if toolName = Some (JStr ''slack_post_message'') then
        (case get_prop (Some args) ''channel_id'' of
           Inl e \<Rightarrow> (Inl e, s)
         | Inr channel_id \<Rightarrow> postMessage rt slackClient channel_id (member args ''text'') s)
      else if toolName = Some (JStr ''slack_reply_to_thread'') then
        (case get_prop (Some args) ''channel_id'' of
           Inl e \<Rightarrow> (Inl e, s)
         | Inr channel_id \<Rightarrow>
             postReply rt slackClient channel_id (member args ''thread_ts'') (member args ''text'') s)
      else if toolName = Some (JStr ''slack_add_reaction'') then
        (case get_prop (Some args) ''channel_id'' of
           Inl e \<Rightarrow> (Inl e, s)
         | Inr channel_id \<Rightarrow>
             addReaction rt slackClient channel_id (member args ''timestamp'')
               (member args ''reaction'') s)
      else if toolName = Some (JStr ''slack_get_channel_history'') then
        (case get_prop (Some args) ''channel_id'' of
           Inl e \<Rightarrow> (Inl e, s)
         | Inr channel_id \<Rightarrow> getChannelHistory rt slackClient channel_id (member args ''limit'') s)
      else if toolName = Some (JStr ''slack_get_thread_replies'') then
        (case get_prop (Some args) ''channel_id'' of
           Inl e \<Rightarrow> (Inl e, s)
         | Inr channel_id \<Rightarrow> getThreadReplies rt slackClient channel_id (member args ''thread_ts'') s)
      else if toolName = Some (JStr ''slack_get_users'') then
        (case get_prop (Some args) ''limit'' of
           Inl e \<Rightarrow> (Inl e, s)
         | Inr limit \<Rightarrow> getUsers rt slackClient limit (member args ''cursor'') s)
      else if toolName = Some (JStr ''slack_get_user_profile'') then
        (case get_prop (Some args) ''user_id'' of
           Inl e \<Rightarrow> (Inl e, s)
         | Inr user_id \<Rightarrow> getUserProfile rt slackClient user_id s)
      else
        (case to_String rt toolName of
           Inl e \<Rightarrow> (Inl e, s)
         | Inr n \<Rightarrow> (Inl (JsError ''Error'' (''Unknown tool: '' @ n)), s)))"

text \<open>
  The \<^verbatim>\<open>catch\<close> block converts the name again for its console message, before it
  builds the payload: when that conversion throws, the exception leaves
  \<^verbatim>\<open>handleToolCall\<close>.
\<close>

definition handleToolCall ::
  "'w runtime \<Rightarrow> json option \<Rightarrow> json \<Rightarrow> slack_client \<Rightarrow> 'w world
     \<Rightarrow> (js_error + tool_result) \<times> 'w world"
where
  "handleToolCall rt toolName args slackClient s =
     (case switch_tool rt toolName args slackClient s of
        (Inr response, s') \<Rightarrow> (Inr (text_content response), s')
      | (Inl e, s') \<Rightarrow>
          (case to_String rt toolName of
             Inl thrown \<Rightarrow> (Inl thrown, s')
           | Inr n \<Rightarrow>
               (Inr (text_content (failed_payload e)),
                console_out Console_error
                  [Text (''Error executing tool '' @ n @ '':''), Thrown e] s')))"

section \<open>The HTTP layer\<close>

record config =
  SECRET_KEY :: string
  REQUIRE_AUTH :: bool

text \<open>A request after \<^verbatim>\<open>express.json()\<close>: \<open>body\<close> is the parsed body, \<open>None\<close> when
  there is none; a header that is absent is \<open>None\<close>.\<close>

record request =
  path :: string
  http_method :: string
  headers :: "string \<Rightarrow> string option"
  body :: "json option"
  ip :: "string option"

record error_object =
  code :: int
  message :: string

datatype result_value = Plain json | Tool tool_result

text \<open>The object given to \<^verbatim>\<open>res.json\<close>; a field that is \<open>None\<close> is absent from the
  serialised response (\<^verbatim>\<open>undefined\<close>, or not written by the source).\<close>

record rpc_response =
  jsonrpc :: string
  rpc_result :: "result_value option"
  rpc_error :: "error_object option"
  rpc_id :: "json option"

record http_response =
  status :: nat
  payload :: rpc_response

definition json_result :: "result_value \<Rightarrow> json option \<Rightarrow> http_response" where
  "json_result r rid =
     \<lparr>status = 200,
      payload = \<lparr>jsonrpc = ''2.0'', rpc_result = Some r, rpc_error = None, rpc_id = rid\<rparr>\<rparr>"

definition json_error :: "nat \<Rightarrow> int \<Rightarrow> string \<Rightarrow> json option \<Rightarrow> http_response" where
  "json_error st c m rid =
     \<lparr>status = st,
      payload = \<lparr>jsonrpc = ''2.0'', rpc_result = None,
                 rpc_error = Some \<lparr>code = c, message = m\<rparr>, rpc_id = rid\<rparr>\<rparr>"

text \<open>\<^verbatim>\<open>req.body?.id || null\<close>.\<close>

definition id_or_null :: "request \<Rightarrow> json" where
  "id_or_null req = or_else (opt_prop (body req) ''id'') JNull"

text \<open>\<^verbatim>\<open>req.ip || "unknown"\<close>.\<close>

definition clientHost :: "request \<Rightarrow> string" where
  "clientHost req = (case ip req of None \<Rightarrow> ''unknown'' | Some a \<Rightarrow> if a = [] then ''unknown'' else a)"

subsection \<open>\<^verbatim>\<open>authMiddleware\<close>\<close>

text \<open>The body of the \<^verbatim>\<open>try\<close> block throws nowhere but, in principle, in the template
  literal of the discovery message; the \<^verbatim>\<open>catch\<close> block logs and lets the request
  through.\<close>

datatype outcome = Next | Responded http_response

definition authMiddleware :: "config \<Rightarrow> 'w runtime \<Rightarrow> request \<Rightarrow> 'w world \<Rightarrow> outcome \<times> 'w world" where
  "authMiddleware cfg rt req s =
     (if \<not> REQUIRE_AUTH cfg then (Next, s)
      else if SECRET_KEY cfg = [] then
        (Next, console_out Console_warn
                 [Text ''SECRET_KEY not configured but REQUIRE_AUTH is true''] s)
      else if path req = ''/mcp'' \<and> http_method req = ''POST'' then
        (let method = opt_prop (body req) ''method'' in
         if method = Some (JStr ''tools/call'') then
           (let providedKey = headers req ''x-secret-key'' in
            if \<not> truthy_str providedKey then
              (Responded (json_error 401 (- 32001) ''Authentication required for tool execution''
                            (Some (id_or_null req))),
               console_out Console_warn
                 [Text (''Missing x-secret-key header from '' @ clientHost req @ '' for tools/call'')] s)
            else if providedKey \<noteq> Some (SECRET_KEY cfg) then
              (Responded (json_error 401 (- 32001) ''Invalid authentication for tool execution''
                            (Some (id_or_null req))),
               console_out Console_warn
                 [Text (''Invalid x-secret-key from '' @ clientHost req @ '' for tools/call'')] s)
            else (Next, s))
         else if method = Some (JStr ''initialize'') \<or> method = Some (JStr ''tools/list'') then
           (case to_String rt method of
              Inr m \<Rightarrow>
                (Next, console_out Console_log
                         [Text (''Allowing unauthenticated '' @ m @ '' request'')] s)
            | Inl e \<Rightarrow>
                (Next, console_out Console_error [Text ''Error in auth middleware:'', Thrown e] s))
         else (Next, s))
      else (Next, s))"

subsection \<open>The \<^verbatim>\<open>POST /mcp\<close> route\<close>

definition initialize_result :: json where
  "initialize_result =
     JObj [(''protocolVersion'', JStr ''2024-11-05''),
           (''capabilities'',
              JObj [(''tools'', JObj []), (''prompts'', JNull), (''resources'', JNull)]),
           (''serverInfo'',
              JObj [(''name'', JStr ''slack-mcp-server''), (''version'', JStr ''1.0.0'')])]"

definition missing_credentials :: string where
  "missing_credentials =
     ''Missing required Slack credentials in headers: x-slack-bot-token and x-slack-team-id are required''"

text \<open>\<^verbatim>\<open>!slackBotToken || !slackTeamId\<close> fails: both headers are present and non-empty.\<close>

definition slack_credentials :: "request \<Rightarrow> (string \<times> string) option" where
  "slack_credentials req =
     (case headers req ''x-slack-bot-token'' of
        None \<Rightarrow> None
      | Some slackBotToken \<Rightarrow>
          (case headers req ''x-slack-team-id'' of
             None \<Rightarrow> None
           | Some slackTeamId \<Rightarrow>
               if slackBotToken = [] \<or> slackTeamId = [] then None
               else Some (slackBotToken, slackTeamId)))"

text \<open>
  The \<^verbatim>\<open>try\<close> block of the handler of \<^verbatim>\<open>app.post("/mcp", ...)\<close>. \<^verbatim>\<open>body.method\<close> is the
  first property read and throws when there is no body; \<^verbatim>\<open>body.params\<close> and \<^verbatim>\<open>body.id\<close>
  are read from the same value after it. An exception that leaves \<^verbatim>\<open>handleToolCall\<close>,
  or the template literal of the "Method not found" message, throws here. Every
  \<^verbatim>\<open>res.json\<close> answers with status 200.
\<close>

definition mcp_try ::
  "'w runtime \<Rightarrow> request \<Rightarrow> 'w world \<Rightarrow> (js_error + http_response) \<times> 'w world"
where
  "mcp_try rt req s =
     (case get_prop (body req) ''method'' of
        Inl e \<Rightarrow> (Inl e, s)
      | Inr method \<Rightarrow>
          (let params = or_else (opt_prop (body req) ''params'') (JObj []);
               requestId = opt_prop (body req) ''id''
           in
           if method = Some (JStr ''initialize'') then
             (Inr (json_result (Plain initialize_result) requestId), s)
           else if method = Some (JStr ''tools/list'') then
             (Inr (json_result (Plain (JObj [(''tools'', getToolsList)])) requestId), s)
           else if method = Some (JStr ''tools/call'') then
             (case slack_credentials req of
                None \<Rightarrow> (Inr (json_error 200 (- 32602) missing_credentials requestId), s)
              | Some (slackBotToken, slackTeamId) \<Rightarrow>
                  (let slackClient =
                         new_SlackClient slackBotToken slackTeamId
                           (headers req ''x-slack-channel-ids'');
                       toolName = member params ''name'';
                       toolArguments = or_else (member params ''arguments'') (JObj [])
                   in
                   case handleToolCall rt toolName toolArguments slackClient s of
                     (Inl e, s') \<Rightarrow> (Inl e, s')
                   | (Inr result, s') \<Rightarrow> (Inr (json_result (Tool result) requestId), s')))
           else
             (case to_String rt method of
                Inl e \<Rightarrow> (Inl e, s)
              | Inr m \<Rightarrow>
                  (Inr (json_error 200 (- 32601) (''Method not found: '' @ m) requestId), s))))"

text \<open>The handler: the request is logged, the \<^verbatim>\<open>try\<close> block runs, and the \<^verbatim>\<open>catch\<close>
  block answers what it throws with the error -32603.\<close>

definition mcp_handler :: "'w runtime \<Rightarrow> request \<Rightarrow> 'w world \<Rightarrow> http_response \<times> 'w world" where
  "mcp_handler rt req s0 =
     (case mcp_try rt req
             (console_out Console_log [Text ''Received MCP request:'', Json_text (body req)] s0) of
        (Inr response, s) \<Rightarrow> (response, s)
      | (Inl e, s) \<Rightarrow>
          (json_error 200 (- 32603) (''Internal error: '' @ error_text e) (Some (id_or_null req)),
           console_out Console_error [Text ''Error handling MCP request:'', Thrown e] s))"

text \<open>\<^verbatim>\<open>app.use(authMiddleware)\<close> before the route: a \<^verbatim>\<open>POST /mcp\<close> request goes through
  the gate, then to the handler unless the gate has answered.\<close>

definition post_mcp :: "config \<Rightarrow> 'w runtime \<Rightarrow> request \<Rightarrow> 'w world \<Rightarrow> http_response \<times> 'w world" where
  "post_mcp cfg rt req s =
     (case authMiddleware cfg rt req s of
        (Responded r, s') \<Rightarrow> (r, s')
      | (Next, s') \<Rightarrow> mcp_handler rt req s')"

section \<open>Notions used to state the properties\<close>

text \<open>The case labels of the \<^verbatim>\<open>switch\<close> in \<^verbatim>\<open>handleToolCall\<close>.\<close>

definition tool_names :: "string list" where
  "tool_names =
     [''slack_list_channels'', ''slack_post_message'', ''slack_reply_to_thread'',
      ''slack_add_reaction'', ''slack_get_channel_history'', ''slack_get_thread_replies'',
      ''slack_get_users'', ''slack_get_user_profile'']"

text \<open>What the outside world answers to a sequence of requests issued one after the
  other, and the state it is left in.\<close>

fun answers :: "'w runtime \<Rightarrow> http_call list \<Rightarrow> 'w \<Rightarrow> (js_error + json) list" where
  "answers rt [] w = []"
| "answers rt (c # cs) w = (case fetch_json rt w c of (r, w') \<Rightarrow> r # answers rt cs w')"

fun upstream_after :: "'w runtime \<Rightarrow> http_call list \<Rightarrow> 'w \<Rightarrow> 'w" where
  "upstream_after rt [] w = w"
| "upstream_after rt (c # cs) w = (case fetch_json rt w c of (r, w') \<Rightarrow> upstream_after rt cs w')"

text \<open>The channel a lookup body contributes to the list: the one it carries, when the
  body reports \<^verbatim>\<open>ok\<close> and the channel is not archived.\<close>

definition looked_up :: "json \<Rightarrow> json list" where
  "looked_up data =
     (case member data ''channel'' of
        None \<Rightarrow> []
      | Some ch \<Rightarrow>
          if truthy_val (member data ''ok'') \<and> truthy ch \<and> \<not> truthy_val (member ch ''is_archived'')
          then [ch] else [])"

text \<open>The values the handler computes from a \<^verbatim>\<open>tools/call\<close> request before it calls
  \<^verbatim>\<open>handleToolCall\<close>: \<^verbatim>\<open>params.name\<close>, \<^verbatim>\<open>params.arguments || {}\<close>, the client built from
  the headers, and the state after the request has been logged (\<^verbatim>\<open>params\<close> is
  \<^verbatim>\<open>body.params || {}\<close>).\<close>

definition tool_params :: "request \<Rightarrow> json" where
  "tool_params req = or_else (opt_prop (body req) ''params'') (JObj [])"

definition tool_name :: "request \<Rightarrow> json option" where
  "tool_name req = member (tool_params req) ''name''"

definition tool_arguments :: "request \<Rightarrow> json" where
  "tool_arguments req = or_else (member (tool_params req) ''arguments'') (JObj [])"

definition client_of :: "request \<Rightarrow> string \<Rightarrow> string \<Rightarrow> slack_client" where
  "client_of req slackBotToken slackTeamId =
     new_SlackClient slackBotToken slackTeamId (headers req ''x-slack-channel-ids'')"

definition received :: "request \<Rightarrow> 'w world \<Rightarrow> 'w world" where
  "received req s =
     console_out Console_log [Text ''Received MCP request:'', Json_text (body req)] s"

text \<open>The network is down: every call throws.\<close>

definition network_down :: "'w runtime \<Rightarrow> bool" where
  "network_down rt = (\<forall>w c. \<exists>e w'. fetch_json rt w c = (Inl e, w'))"

text \<open>A lookup has answered when it returned a body from which \<^verbatim>\<open>data.ok\<close> can be read;
  otherwise it throws: what \<^verbatim>\<open>fetch\<close> or \<^verbatim>\<open>response.json()\<close> threw, or the error of
  reading \<^verbatim>\<open>ok\<close> from \<^verbatim>\<open>null\<close>.\<close>

definition answered :: "js_error + json \<Rightarrow> bool" where
  "answered r = (case r of Inl e \<Rightarrow> False | Inr data \<Rightarrow> data \<noteq> JNull)"

definition thrown_by :: "js_error + json \<Rightarrow> js_error" where
  "thrown_by r = (case r of Inl e \<Rightarrow> e | Inr data \<Rightarrow> cannot_read ''null'' ''ok'')"

text \<open>The channels a sequence of lookup answers contributes, in the order of the
  answers.\<close>

definition listed :: "(js_error + json) list \<Rightarrow> json list" where
  "listed rs = concat (map (\<lambda>r. case r of Inl e \<Rightarrow> [] | Inr data \<Rightarrow> looked_up data) rs)"

subsection \<open>Concrete inputs for the examples\<close>

fun decimal :: "nat \<Rightarrow> string" where
  "decimal n =
     (if n < 10 then [''0123456789'' ! n]
      else decimal (n div 10) @ [''0123456789'' ! (n mod 10)])"

text \<open>A runtime for the examples, in the manner of the mocked \<^verbatim>\<open>fetch\<close> of the test
  suite: the world is the list of the answers still to be given, one per call, and a
  call with no answer left fails as a refused connection does. The examples print
  integers only and convert no string to a number.\<close>

definition scripted :: "(js_error + json) list runtime" where
  "scripted =
     \<lparr>number_toString = (\<lambda>r. (if r < 0 then ''-'' else []) @ decimal (nat \<bar>\<lfloor>r\<rfloor>\<bar>)),
      string_toNumber = (\<lambda>s. NaN),
      fetch_json =
        (\<lambda>w c. case w of
                  [] \<Rightarrow> (Inl (JsError ''TypeError'' ''fetch failed''), [])
                | r # rs \<Rightarrow> (r, rs))\<rparr>"

text \<open>The same runtime with the network down.\<close>

definition offline :: "(js_error + json) list runtime" where
  "offline = scripted\<lparr>fetch_json := (\<lambda>w c. (Inl (JsError ''TypeError'' ''fetch failed''), w))\<rparr>"

definition fresh :: "'w \<Rightarrow> 'w world" where
  "fresh w = \<lparr>upstream = w, issued = [], console = []\<rparr>"

definition mcp_request :: "(string \<times> string) list \<Rightarrow> json \<Rightarrow> request" where
  "mcp_request hs b =
     \<lparr>path = ''/mcp'', http_method = ''POST'', headers = map_of hs, body = Some b, ip = None\<rparr>"

definition guarded :: config where
  "guarded = \<lparr>SECRET_KEY = ''s3cret'', REQUIRE_AUTH = True\<rparr>"

definition unconfigured :: config where
  "unconfigured = \<lparr>SECRET_KEY = [], REQUIRE_AUTH = True\<rparr>"

text \<open>Three channels and the body of a successful lookup of one.\<close>

definition chan_general :: json where
  "chan_general = JObj [(''id'', JStr ''C1''), (''name'', JStr ''general''), (''is_archived'', JBool False)]"

definition chan_attic :: json where
  "chan_attic = JObj [(''id'', JStr ''C2''), (''name'', JStr ''attic''), (''is_archived'', JBool True)]"

definition chan_random :: json where
  "chan_random = JObj [(''id'', JStr ''C3''), (''name'', JStr ''random''), (''is_archived'', JBool False)]"

definition lookup_ok :: "json \<Rightarrow> js_error + json" where
  "lookup_ok ch = Inr (JObj [(''ok'', JBool True), (''channel'', ch)])"

section \<open>The authentication gate\<close>

text \<open>
  C4. When authentication is required but the configured secret is the empty string,
  the gate lets every request through, whatever its method and whatever
  \<^verbatim>\<open>x-secret-key\<close> header it carries, and writes one warning to the console.
\<close>

theorem C4_fail_open:
  "REQUIRE_AUTH cfg \<Longrightarrow> SECRET_KEY cfg = [] \<Longrightarrow>
   authMiddleware cfg rt req s =
     (Next, console_out Console_warn
              [Text ''SECRET_KEY not configured but REQUIRE_AUTH is true''] s)"
  by (simp add: authMiddleware_def)

theorem C4_fail_open_witness:
  "REQUIRE_AUTH unconfigured \<and> SECRET_KEY unconfigured = [] \<and>
   authMiddleware unconfigured scripted
     (mcp_request [(''x-secret-key'', ''wrong'')] (JObj [(''method'', JStr ''tools/call'')]))
     (fresh []) =
     (Next, console_out Console_warn
              [Text ''SECRET_KEY not configured but REQUIRE_AUTH is true''] (fresh []))"
  using C4_fail_open [of unconfigured scripted
      "mcp_request [(''x-secret-key'', ''wrong'')] (JObj [(''method'', JStr ''tools/call'')])"
      "fresh []"]
  by (simp add: unconfigured_def)

text \<open>
  C2, as the code has it. With authentication required and a non-empty secret, a
  \<^verbatim>\<open>tools/call\<close> posted to \<^verbatim>\<open>/mcp\<close> is answered 401 with code -32001 and
  "Authentication required for tool execution" when the \<^verbatim>\<open>x-secret-key\<close> header is
  absent or empty, 401 with code -32001 and "Invalid authentication for tool execution"
  when it is non-empty and differs from the secret, and goes on to the handler when it
  equals the secret.
\<close>

theorem C2_secret_key_gate:
  assumes "REQUIRE_AUTH cfg" and "SECRET_KEY cfg \<noteq> []"
    and "path req = ''/mcp''" and "http_method req = ''POST''"
    and "opt_prop (body req) ''method'' = Some (JStr ''tools/call'')"
  shows "post_mcp cfg rt req s =
     (case headers req ''x-secret-key'' of
        None \<Rightarrow>
          (json_error 401 (- 32001) ''Authentication required for tool execution''
             (Some (id_or_null req)),
           console_out Console_warn
             [Text (''Missing x-secret-key header from '' @ clientHost req @ '' for tools/call'')] s)
      | Some k \<Rightarrow>
          if k = [] then
            (json_error 401 (- 32001) ''Authentication required for tool execution''
               (Some (id_or_null req)),
             console_out Console_warn
               [Text (''Missing x-secret-key header from '' @ clientHost req @ '' for tools/call'')] s)
          else if k = SECRET_KEY cfg then mcp_handler rt req s
          else
            (json_error 401 (- 32001) ''Invalid authentication for tool execution''
               (Some (id_or_null req)),
             console_out Console_warn
               [Text (''Invalid x-secret-key from '' @ clientHost req @ '' for tools/call'')] s))"
  using assms
  by (simp add: post_mcp_def authMiddleware_def truthy_str_def split: option.splits)

theorem C2_secret_key_gate_witness:
  "REQUIRE_AUTH guarded \<and> SECRET_KEY guarded \<noteq> [] \<and>
   fst (post_mcp guarded scripted
     (mcp_request [(''x-secret-key'', ''guess'')]
        (JObj [(''method'', JStr ''tools/call''), (''id'', JNum 7)])) (fresh [])) =
     json_error 401 (- 32001) ''Invalid authentication for tool execution'' (Some (JNum 7))"
  using C2_secret_key_gate [of guarded
      "mcp_request [(''x-secret-key'', ''guess'')]
        (JObj [(''method'', JStr ''tools/call''), (''id'', JNum 7)])" scripted "fresh []"]
  by (simp add: guarded_def mcp_request_def opt_prop_def id_or_null_def or_else_def)

text \<open>
  C2, as stated, fails for a header that is present and empty: it differs from the
  secret, yet the answer is "Authentication required", not "Invalid authentication".
\<close>

theorem C2_empty_key_counterexample:
  "headers (mcp_request [(''x-secret-key'', [])] (JObj [(''method'', JStr ''tools/call'')]))
     ''x-secret-key'' = Some [] \<and>
   [] \<noteq> SECRET_KEY guarded \<and>
   fst (post_mcp guarded scripted
     (mcp_request [(''x-secret-key'', [])] (JObj [(''method'', JStr ''tools/call'')])) (fresh [])) =
     json_error 401 (- 32001) ''Authentication required for tool execution'' (Some JNull) \<and>
   fst (post_mcp guarded scripted
     (mcp_request [(''x-secret-key'', [])] (JObj [(''method'', JStr ''tools/call'')])) (fresh [])) \<noteq>
     json_error 401 (- 32001) ''Invalid authentication for tool execution'' (Some JNull)"
  by (simp add: post_mcp_def authMiddleware_def truthy_str_def guarded_def mcp_request_def
      opt_prop_def id_or_null_def or_else_def json_error_def)

text \<open>
  C1. The two 401 rejections answer with \<^verbatim>\<open>req.body?.id || null\<close>: a request whose
  \<^verbatim>\<open>id\<close> is \<open>0\<close> gets \<^verbatim>\<open>null\<close> back from both, while the -32602 answer of the
  handler, which uses \<^verbatim>\<open>body.id\<close>, returns the \<open>0\<close> unchanged.
\<close>

theorem C1_rejection_turns_id_zero_into_null:
  "opt_prop (body (mcp_request [] (JObj [(''method'', JStr ''tools/call''), (''id'', JNum 0)])))
     ''id'' = Some (JNum 0) \<and>
   fst (post_mcp guarded scripted
     (mcp_request [] (JObj [(''method'', JStr ''tools/call''), (''id'', JNum 0)])) (fresh [])) =
     json_error 401 (- 32001) ''Authentication required for tool execution'' (Some JNull) \<and>
   fst (post_mcp guarded scripted
     (mcp_request [(''x-secret-key'', ''nope'')]
        (JObj [(''method'', JStr ''tools/call''), (''id'', JNum 0)])) (fresh [])) =
     json_error 401 (- 32001) ''Invalid authentication for tool execution'' (Some JNull) \<and>
   fst (post_mcp guarded scripted
     (mcp_request [(''x-secret-key'', ''s3cret'')]
        (JObj [(''method'', JStr ''tools/call''), (''id'', JNum 0)])) (fresh [])) =
     json_error 200 (- 32602) missing_credentials (Some (JNum 0))"
  by (simp add: post_mcp_def authMiddleware_def truthy_str_def guarded_def mcp_request_def
      opt_prop_def get_prop_def id_or_null_def or_else_def mcp_handler_def mcp_try_def
      slack_credentials_def console_out_def)

section \<open>Discovery and dispatch\<close>

lemma opt_prop_object:
  "opt_prop b k = Some m \<Longrightarrow> \<exists>kvs. b = Some (JObj kvs) \<and> map_of kvs k = Some m"
  by (auto simp: opt_prop_def split: option.splits elim: member.elims)

lemma get_prop_of_opt_prop:
  "opt_prop b k = Some m \<Longrightarrow> get_prop b k = Inr (Some m)"
  by (auto simp: get_prop_def dest: opt_prop_object)

lemma to_String_JStr: "to_String rt (Some (JStr m)) = Inr m"
  by (simp add: to_String_def)

lemma gate_keeps_issued: "issued (snd (authMiddleware cfg rt req s)) = issued s"
  by (simp add: authMiddleware_def console_out_def Let_def to_String_JStr)

lemma gate_discovery:
  "opt_prop (body req) ''method'' = Some (JStr m) \<Longrightarrow> m = ''initialize'' \<or> m = ''tools/list'' \<Longrightarrow>
   fst (authMiddleware cfg rt req s) = Next"
  by (auto simp: authMiddleware_def Let_def to_String_JStr)

lemma handler_initialize:
  "opt_prop (body req) ''method'' = Some (JStr ''initialize'') \<Longrightarrow>
   fst (mcp_handler rt req s) = json_result (Plain initialize_result) (opt_prop (body req) ''id'')"
  by (simp add: mcp_handler_def mcp_try_def get_prop_of_opt_prop Let_def)

lemma handler_tools_list:
  "opt_prop (body req) ''method'' = Some (JStr ''tools/list'') \<Longrightarrow>
   fst (mcp_handler rt req s) =
     json_result (Plain (JObj [(''tools'', getToolsList)])) (opt_prop (body req) ''id'')"
  by (simp add: mcp_handler_def mcp_try_def get_prop_of_opt_prop Let_def)

lemma post_mcp_next:
  "fst (authMiddleware cfg rt req s) = Next \<Longrightarrow>
   post_mcp cfg rt req s = mcp_handler rt req (snd (authMiddleware cfg rt req s))"
  by (cases "authMiddleware cfg rt req s") (simp add: post_mcp_def)

text \<open>
  C8. An \<^verbatim>\<open>initialize\<close> or \<^verbatim>\<open>tools/list\<close> request is answered with status 200 and a
  result, whatever the configuration and the headers; the result of \<^verbatim>\<open>initialize\<close> is
  the fixed descriptor, the same for any two such requests.
\<close>

theorem C8_discovery_is_open:
  assumes "opt_prop (body req) ''method'' = Some (JStr m)"
    and "m = ''initialize'' \<or> m = ''tools/list''"
  shows "status (fst (post_mcp cfg rt req s)) = 200 \<and>
     rpc_error (payload (fst (post_mcp cfg rt req s))) = None \<and>
     rpc_id (payload (fst (post_mcp cfg rt req s))) = opt_prop (body req) ''id'' \<and>
     (m = ''initialize'' \<longrightarrow>
        rpc_result (payload (fst (post_mcp cfg rt req s))) = Some (Plain initialize_result)) \<and>
     (m = ''initialize'' \<and> opt_prop (body req') ''method'' = Some (JStr ''initialize'') \<longrightarrow>
        rpc_result (payload (fst (post_mcp cfg rt req s))) =
        rpc_result (payload (fst (post_mcp cfg' rt' req' s'))))"
proof -
  have next1: "post_mcp cfg rt req s = mcp_handler rt req (snd (authMiddleware cfg rt req s))"
    using assms by (intro post_mcp_next gate_discovery)
  show ?thesis
  proof (cases "m = ''initialize''")
    case True
    have "opt_prop (body req') ''method'' = Some (JStr ''initialize'') \<Longrightarrow>
        fst (post_mcp cfg' rt' req' s') =
          json_result (Plain initialize_result) (opt_prop (body req') ''id'')"
      by (simp add: post_mcp_next gate_discovery handler_initialize)
    with True assms next1 show ?thesis
      by (auto simp: handler_initialize json_result_def)
  next
    case False
    with assms next1 show ?thesis
      by (auto simp: handler_tools_list json_result_def)
  qed
qed

theorem C8_discovery_is_open_witness:
  "opt_prop (body (mcp_request [] (JObj [(''method'', JStr ''initialize''), (''id'', JNum 1)])))
      ''method'' = Some (JStr ''initialize'') \<and>
   status (fst (post_mcp guarded scripted
      (mcp_request [] (JObj [(''method'', JStr ''initialize''), (''id'', JNum 1)])) (fresh []))) = 200 \<and>
   rpc_result (payload (fst (post_mcp guarded scripted
      (mcp_request [] (JObj [(''method'', JStr ''initialize''), (''id'', JNum 1)])) (fresh [])))) =
   rpc_result (payload (fst (post_mcp unconfigured scripted
      (mcp_request [(''x-secret-key'', ''k'')]
         (JObj [(''method'', JStr ''initialize''),
                (''params'', JObj [(''protocolVersion'', JStr ''1999-01-01'')])]))
      (fresh []))))"
proof -
  have m: "opt_prop (body (mcp_request [] (JObj [(''method'', JStr ''initialize''), (''id'', JNum 1)])))
      ''method'' = Some (JStr ''initialize'')"
    by (simp add: mcp_request_def opt_prop_def)
  have m': "opt_prop (body (mcp_request [(''x-secret-key'', ''k'')]
         (JObj [(''method'', JStr ''initialize''),
                (''params'', JObj [(''protocolVersion'', JStr ''1999-01-01'')])])))
      ''method'' = Some (JStr ''initialize'')"
    by (simp add: mcp_request_def opt_prop_def)
  show ?thesis
    using m m' C8_discovery_is_open [OF m, where
      req' = "mcp_request [(''x-secret-key'', ''k'')]
         (JObj [(''method'', JStr ''initialize''),
                (''params'', JObj [(''protocolVersion'', JStr ''1999-01-01'')])])"
      and cfg = guarded and rt = scripted and s = "fresh []"
      and cfg' = unconfigured and rt' = scripted and s' = "fresh []"]
    by blast
qed

lemma handler_missing_credentials:
  "opt_prop (body req) ''method'' = Some (JStr ''tools/call'') \<Longrightarrow> slack_credentials req = None \<Longrightarrow>
   mcp_handler rt req s =
     (json_error 200 (- 32602) missing_credentials (opt_prop (body req) ''id''),
      console_out Console_log [Text ''Received MCP request:'', Json_text (body req)] s)"
  by (simp add: mcp_handler_def mcp_try_def get_prop_of_opt_prop Let_def)

text \<open>
  C5. A \<^verbatim>\<open>tools/call\<close> that has passed the gate and lacks the \<^verbatim>\<open>x-slack-bot-token\<close> or
  the \<^verbatim>\<open>x-slack-team-id\<close> header is answered with the error -32602, whose message
  names both headers, with no result, the \<^verbatim>\<open>id\<close> of the request, and no outbound
  request.
\<close>

theorem C5_missing_slack_credentials:
  assumes "opt_prop (body req) ''method'' = Some (JStr ''tools/call'')"
    and "fst (authMiddleware cfg rt req s) = Next"
    and "headers req ''x-slack-bot-token'' = None \<or> headers req ''x-slack-team-id'' = None"
  shows "fst (post_mcp cfg rt req s) =
       json_error 200 (- 32602) missing_credentials (opt_prop (body req) ''id'') \<and>
     rpc_result (payload (fst (post_mcp cfg rt req s))) = None \<and>
     rpc_id (payload (fst (post_mcp cfg rt req s))) = opt_prop (body req) ''id'' \<and>
     issued (snd (post_mcp cfg rt req s)) = issued s \<and>
     (\<exists>a b. missing_credentials = a @ ''x-slack-bot-token'' @ b) \<and>
     (\<exists>a b. missing_credentials = a @ ''x-slack-team-id'' @ b)"
proof -
  have none: "slack_credentials req = None"
    using assms(3) by (auto simp: slack_credentials_def split: option.splits)
  have run: "post_mcp cfg rt req s =
      (json_error 200 (- 32602) missing_credentials (opt_prop (body req) ''id''),
       console_out Console_log [Text ''Received MCP request:'', Json_text (body req)]
         (snd (authMiddleware cfg rt req s)))"
    using assms(1,2) none by (simp add: post_mcp_next handler_missing_credentials)
  have a: "missing_credentials =
      ''Missing required Slack credentials in headers: '' @ ''x-slack-bot-token'' @
      '' and x-slack-team-id are required''"
    by (simp add: missing_credentials_def)
  have b: "missing_credentials =
      ''Missing required Slack credentials in headers: x-slack-bot-token and '' @
      ''x-slack-team-id'' @ '' are required''"
    by (simp add: missing_credentials_def)
  have ea: "\<exists>a b. missing_credentials = a @ ''x-slack-bot-token'' @ b"
    using a by blast
  have eb: "\<exists>a b. missing_credentials = a @ ''x-slack-team-id'' @ b"
    using b by blast
  have quiet: "issued (snd (post_mcp cfg rt req s)) = issued s"
    using run by (simp add: console_out_def gate_keeps_issued)
  have resp: "fst (post_mcp cfg rt req s) =
       json_error 200 (- 32602) missing_credentials (opt_prop (body req) ''id'')"
    using run by simp
  have "rpc_result (payload (fst (post_mcp cfg rt req s))) = None"
    and "rpc_id (payload (fst (post_mcp cfg rt req s))) = opt_prop (body req) ''id''"
    by (simp_all add: resp json_error_def)
  with resp quiet ea eb show ?thesis
    by (intro conjI)
qed

theorem C5_missing_slack_credentials_witness:
  "opt_prop (body (mcp_request [(''x-secret-key'', ''s3cret''), (''x-slack-bot-token'', ''xoxb-1'')]
        (JObj [(''method'', JStr ''tools/call''), (''id'', JStr ''abc''),
               (''params'', JObj [(''name'', JStr ''slack_post_message'')])]))) ''method'' =
     Some (JStr ''tools/call'') \<and>
   fst (authMiddleware guarded scripted
     (mcp_request [(''x-secret-key'', ''s3cret''), (''x-slack-bot-token'', ''xoxb-1'')]
        (JObj [(''method'', JStr ''tools/call''), (''id'', JStr ''abc''),
               (''params'', JObj [(''name'', JStr ''slack_post_message'')])])) (fresh [])) = Next \<and>
   fst (post_mcp guarded scripted
     (mcp_request [(''x-secret-key'', ''s3cret''), (''x-slack-bot-token'', ''xoxb-1'')]
        (JObj [(''method'', JStr ''tools/call''), (''id'', JStr ''abc''),
               (''params'', JObj [(''name'', JStr ''slack_post_message'')])])) (fresh [])) =
     json_error 200 (- 32602) missing_credentials (Some (JStr ''abc'')) \<and>
   issued (snd (post_mcp guarded scripted
     (mcp_request [(''x-secret-key'', ''s3cret''), (''x-slack-bot-token'', ''xoxb-1'')]
        (JObj [(''method'', JStr ''tools/call''), (''id'', JStr ''abc''),
               (''params'', JObj [(''name'', JStr ''slack_post_message'')])])) (fresh []))) = []"
  using C5_missing_slack_credentials [of
      "mcp_request [(''x-secret-key'', ''s3cret''), (''x-slack-bot-token'', ''xoxb-1'')]
        (JObj [(''method'', JStr ''tools/call''), (''id'', JStr ''abc''),
               (''params'', JObj [(''name'', JStr ''slack_post_message'')])])"
      guarded scripted "fresh []"]
  by (simp add: mcp_request_def opt_prop_def authMiddleware_def guarded_def truthy_str_def fresh_def)

section \<open>Tool execution\<close>

lemma handler_tools_call:
  assumes "opt_prop (body req) ''method'' = Some (JStr ''tools/call'')"
    and "slack_credentials req = Some (tok, team)"
  shows "mcp_handler rt req s =
     (case handleToolCall rt (tool_name req) (tool_arguments req) (client_of req tok team)
             (received req s) of
        (Inr result, s') \<Rightarrow> (json_result (Tool result) (opt_prop (body req) ''id''), s')
      | (Inl e, s') \<Rightarrow>
          (json_error 200 (- 32603) (''Internal error: '' @ error_text e) (Some (id_or_null req)),
           console_out Console_error [Text ''Error handling MCP request:'', Thrown e] s'))"
  using assms
  by (simp add: mcp_handler_def mcp_try_def get_prop_of_opt_prop Let_def tool_params_def
      tool_name_def tool_arguments_def client_of_def received_def
      split: prod.splits sum.splits)

lemma handleToolCall_returned:
  "switch_tool rt n a c s = (Inr v, s') \<Longrightarrow>
   handleToolCall rt n a c s = (Inr (text_content v), s')"
  by (simp add: handleToolCall_def)

lemma handleToolCall_caught:
  "switch_tool rt n a c s = (Inl e, s') \<Longrightarrow> to_String rt n = Inr t \<Longrightarrow>
   handleToolCall rt n a c s =
     (Inr (text_content (failed_payload e)),
      console_out Console_error [Text (''Error executing tool '' @ t @ '':''), Thrown e] s')"
  by (simp add: handleToolCall_def)

lemma handleToolCall_escapes:
  "switch_tool rt n a c s = (Inl e, s') \<Longrightarrow> to_String rt n = Inl thrown \<Longrightarrow>
   handleToolCall rt n a c s = (Inl thrown, s')"
  by (simp add: handleToolCall_def)

lemma unknown_tool:
  assumes "\<forall>t \<in> set tool_names. name \<noteq> Some (JStr t)"
  shows "switch_tool rt name a c s =
     (case to_String rt name of
        Inl e \<Rightarrow> (Inl e, s)
      | Inr n \<Rightarrow> (Inl (JsError ''Error'' (''Unknown tool: '' @ n)), s))"
  using assms by (simp add: switch_tool_def tool_names_def)

lemma unconvertible_is_unknown:
  "to_String rt name = Inl e \<Longrightarrow> \<forall>t \<in> set tool_names. name \<noteq> Some (JStr t)"
  by (auto simp: to_String_def)

lemma fetch_down:
  "network_down rt \<Longrightarrow> \<exists>e s'. fetch rt c s = (Inl e, s')"
proof -
  assume "network_down rt"
  then obtain e w' where "fetch_json rt (upstream s) c = (Inl e, w')"
    unfolding network_down_def by blast
  then show ?thesis by (simp add: fetch_def)
qed

lemma fetch_built_down:
  "network_down rt \<Longrightarrow> \<exists>e s'. fetch_built rt b s = (Inl e, s')"
  using fetch_down [of rt] by (cases b) (simp_all add: fetch_built_def)

lemma split_comma_not_Nil: "split_comma s \<noteq> []"
  by (induction s) (auto split: list.splits)

lemma lookup_loop_down:
  "network_down rt \<Longrightarrow> ids \<noteq> [] \<Longrightarrow> \<exists>e s'. lookup_loop rt c ids chs s = (Inl e, s')"
proof (cases ids)
  case Nil
  assume "ids \<noteq> []" with Nil show ?thesis by simp
next
  case (Cons i rest)
  assume "network_down rt"
  then obtain e s' where "fetch rt (info_call c i) s = (Inl e, s')"
    using fetch_down by blast
  with Cons show ?thesis by simp
qed

lemma getChannels_down:
  assumes "network_down rt"
  shows "\<exists>e s'. getChannels rt c limit cursor s = (Inl e, s')"
proof (cases "channelIds c")
  case None
  with fetch_built_down [OF assms] show ?thesis by (simp add: getChannels_def)
next
  case (Some ids)
  show ?thesis
  proof (cases "ids = []")
    case True
    with Some fetch_built_down [OF assms] show ?thesis by (simp add: getChannels_def)
  next
    case False
    obtain e s' where "lookup_loop rt c (map trim (split_comma ids)) [] s = (Inl e, s')"
      using lookup_loop_down [OF assms, of "map trim (split_comma ids)" c "[]" s]
        split_comma_not_Nil [of ids]
      by auto
    with Some False show ?thesis by (simp add: getChannels_def)
  qed
qed

lemma switch_tool_down:
  assumes "network_down rt"
  shows "\<exists>e s'. switch_tool rt n a c s = (Inl e, s')"
proof (cases "a = JNull")
  case True
  then show ?thesis
    by (cases "to_String rt n") (simp_all add: switch_tool_def get_prop_def)
next
  case False
  then have g: "\<And>k. get_prop (Some a) k = Inr (member a k)"
    by (cases a) (simp_all add: get_prop_def)
  show ?thesis
    unfolding switch_tool_def g
    using getChannels_down [OF assms] fetch_built_down [OF assms] fetch_down [OF assms]
    by (cases "to_String rt n")
       (simp_all add: postMessage_def postReply_def addReaction_def getThreadReplies_def
        getUsers_def getUserProfile_def getChannelHistory_def)
qed

text \<open>
  C3, as the code has it. For a \<^verbatim>\<open>tools/call\<close> that reaches \<^verbatim>\<open>handleToolCall\<close> with a
  tool name whose conversion to a string does not throw, the answer has status 200 and a
  result, never an error object: the serialised response of the tool, or, whatever was
  thrown while the tool ran, one content item of type "text" whose text is the
  serialisation of \<^verbatim>\<open>{error: <message>, status: "failed"}\<close>; with the network down it is
  always the latter. For a name whose conversion throws, the \<^verbatim>\<open>catch\<close> block throws in
  turn and the answer is the error -32603. The conversion of a string never throws.
\<close>

theorem C3_tool_failures_are_results:
  assumes "opt_prop (body req) ''method'' = Some (JStr ''tools/call'')"
    and "slack_credentials req = Some (tok, team)"
  shows "(\<forall>n. to_String rt (tool_name req) = Inr n \<longrightarrow>
        status (fst (mcp_handler rt req s)) = 200 \<and>
        rpc_error (payload (fst (mcp_handler rt req s))) = None \<and>
        (\<exists>r. rpc_result (payload (fst (mcp_handler rt req s))) = Some (Tool r) \<and>
           (\<forall>e s'. switch_tool rt (tool_name req) (tool_arguments req) (client_of req tok team)
                      (received req s) = (Inl e, s') \<longrightarrow>
              r = \<lparr>content = [\<lparr>item_type = ''text'',
                     item_text = JSON_stringify
                       (JObj [(''error'', JStr (error_text e)), (''status'', JStr ''failed'')])\<rparr>]\<rparr>) \<and>
           (\<forall>v s'. switch_tool rt (tool_name req) (tool_arguments req) (client_of req tok team)
                      (received req s) = (Inr v, s') \<longrightarrow>
              r = \<lparr>content = [\<lparr>item_type = ''text'', item_text = JSON_stringify v\<rparr>]\<rparr>) \<and>
           (network_down rt \<longrightarrow>
              (\<exists>m. r = \<lparr>content = [\<lparr>item_type = ''text'',
                     item_text = JSON_stringify
                       (JObj [(''error'', JStr m), (''status'', JStr ''failed'')])\<rparr>]\<rparr>)))) \<and>
     (\<forall>e. to_String rt (tool_name req) = Inl e \<longrightarrow>
        fst (mcp_handler rt req s) =
          json_error 200 (- 32603) (''Internal error: '' @ error_text e) (Some (id_or_null req))) \<and>
     (\<forall>t. tool_name req = Some (JStr t) \<longrightarrow> to_String rt (tool_name req) = Inr t)"
proof (intro conjI allI impI)
  let ?run = "switch_tool rt (tool_name req) (tool_arguments req) (client_of req tok team)
                (received req s)"
  let ?call = "handleToolCall rt (tool_name req) (tool_arguments req) (client_of req tok team)
                (received req s)"
  note h = handler_tools_call [OF assms, of rt s]
  have shape: "\<And>e. text_content (failed_payload e) =
      \<lparr>content = [\<lparr>item_type = ''text'',
         item_text = JSON_stringify
           (JObj [(''error'', JStr (error_text e)), (''status'', JStr ''failed'')])\<rparr>]\<rparr>"
    by (simp add: text_content_def failed_payload_def)
  {
    fix n
    assume n: "to_String rt (tool_name req) = Inr n"
    obtain out s1 where run: "?run = (out, s1)"
      by (cases ?run)
    define r where "r = (case out of Inl e \<Rightarrow> text_content (failed_payload e)
                                    | Inr v \<Rightarrow> text_content v)"
    have call: "\<exists>s2. ?call = (Inr r, s2)"
      using run n by (cases out) (simp_all add: handleToolCall_def r_def)
    then have resp: "fst (mcp_handler rt req s) = json_result (Tool r) (opt_prop (body req) ''id'')"
      by (auto simp: h)
    show "status (fst (mcp_handler rt req s)) = 200"
      by (simp add: resp json_result_def)
    show "rpc_error (payload (fst (mcp_handler rt req s))) = None"
      by (simp add: resp json_result_def)
    have 1: "rpc_result (payload (fst (mcp_handler rt req s))) = Some (Tool r)"
      by (simp add: resp json_result_def)
    have 2: "\<forall>e s'. ?run = (Inl e, s') \<longrightarrow>
        r = \<lparr>content = [\<lparr>item_type = ''text'',
               item_text = JSON_stringify
                 (JObj [(''error'', JStr (error_text e)), (''status'', JStr ''failed'')])\<rparr>]\<rparr>"
      using run by (auto simp: r_def shape)
    have 3: "\<forall>v s'. ?run = (Inr v, s') \<longrightarrow>
        r = \<lparr>content = [\<lparr>item_type = ''text'', item_text = JSON_stringify v\<rparr>]\<rparr>"
      using run by (auto simp: r_def text_content_def)
    have 4: "network_down rt \<longrightarrow>
        (\<exists>m. r = \<lparr>content = [\<lparr>item_type = ''text'',
               item_text = JSON_stringify
                 (JObj [(''error'', JStr m), (''status'', JStr ''failed'')])\<rparr>]\<rparr>)"
    proof
      assume "network_down rt"
      then obtain e s' where "?run = (Inl e, s')"
        using switch_tool_down by blast
      with 2 show "\<exists>m. r = \<lparr>content = [\<lparr>item_type = ''text'',
               item_text = JSON_stringify
                 (JObj [(''error'', JStr m), (''status'', JStr ''failed'')])\<rparr>]\<rparr>"
        by blast
    qed
    from 1 2 3 4
    show "\<exists>r. rpc_result (payload (fst (mcp_handler rt req s))) = Some (Tool r) \<and>
           (\<forall>e s'. ?run = (Inl e, s') \<longrightarrow>
              r = \<lparr>content = [\<lparr>item_type = ''text'',
                     item_text = JSON_stringify
                       (JObj [(''error'', JStr (error_text e)), (''status'', JStr ''failed'')])\<rparr>]\<rparr>) \<and>
           (\<forall>v s'. ?run = (Inr v, s') \<longrightarrow>
              r = \<lparr>content = [\<lparr>item_type = ''text'', item_text = JSON_stringify v\<rparr>]\<rparr>) \<and>
           (network_down rt \<longrightarrow>
              (\<exists>m. r = \<lparr>content = [\<lparr>item_type = ''text'',
                     item_text = JSON_stringify
                       (JObj [(''error'', JStr m), (''status'', JStr ''failed'')])\<rparr>]\<rparr>))"
      by blast
  }
  {
    fix e
    assume e: "to_String rt (tool_name req) = Inl e"
    have "?run = (Inl e, received req s)"
      by (simp add: unknown_tool [OF unconvertible_is_unknown [OF e], of rt] e)
    then have "?call = (Inl e, received req s)"
      using e by (rule handleToolCall_escapes)
    then show "fst (mcp_handler rt req s) =
          json_error 200 (- 32603) (''Internal error: '' @ error_text e) (Some (id_or_null req))"
      by (simp add: h)
  }
  {
    fix t
    assume "tool_name req = Some (JStr t)"
    then show "to_String rt (tool_name req) = Inr t"
      by (simp add: to_String_JStr)
  }
qed

theorem C3_tool_failures_are_results_witness:
  "opt_prop (body (mcp_request [(''x-slack-bot-token'', ''xoxb-1''), (''x-slack-team-id'', ''T1'')]
       (JObj [(''method'', JStr ''tools/call''), (''id'', JNum 3),
              (''params'', JObj [(''name'', JStr ''slack_post_message''),
                 (''arguments'', JObj [(''channel_id'', JStr ''C1''), (''text'', JStr ''hi'')])])])))
     ''method'' = Some (JStr ''tools/call'') \<and>
   slack_credentials (mcp_request [(''x-slack-bot-token'', ''xoxb-1''), (''x-slack-team-id'', ''T1'')]
       (JObj [(''method'', JStr ''tools/call''), (''id'', JNum 3),
              (''params'', JObj [(''name'', JStr ''slack_post_message''),
                 (''arguments'', JObj [(''channel_id'', JStr ''C1''), (''text'', JStr ''hi'')])])])) =
     Some (''xoxb-1'', ''T1'') \<and>
   to_String offline (tool_name
     (mcp_request [(''x-slack-bot-token'', ''xoxb-1''), (''x-slack-team-id'', ''T1'')]
       (JObj [(''method'', JStr ''tools/call''), (''id'', JNum 3),
              (''params'', JObj [(''name'', JStr ''slack_post_message''),
                 (''arguments'', JObj [(''channel_id'', JStr ''C1''), (''text'', JStr ''hi'')])])]))) =
     Inr ''slack_post_message'' \<and>
   network_down offline \<and>
   status (fst (mcp_handler offline
     (mcp_request [(''x-slack-bot-token'', ''xoxb-1''), (''x-slack-team-id'', ''T1'')]
       (JObj [(''method'', JStr ''tools/call''), (''id'', JNum 3),
              (''params'', JObj [(''name'', JStr ''slack_post_message''),
                 (''arguments'', JObj [(''channel_id'', JStr ''C1''), (''text'', JStr ''hi'')])])]))
     (fresh []))) = 200 \<and>
   rpc_error (payload (fst (mcp_handler offline
     (mcp_request [(''x-slack-bot-token'', ''xoxb-1''), (''x-slack-team-id'', ''T1'')]
       (JObj [(''method'', JStr ''tools/call''), (''id'', JNum 3),
              (''params'', JObj [(''name'', JStr ''slack_post_message''),
                 (''arguments'', JObj [(''channel_id'', JStr ''C1''), (''text'', JStr ''hi'')])])]))
     (fresh [])))) = None \<and>
   rpc_result (payload (fst (mcp_handler offline
     (mcp_request [(''x-slack-bot-token'', ''xoxb-1''), (''x-slack-team-id'', ''T1'')]
       (JObj [(''method'', JStr ''tools/call''), (''id'', JNum 3),
              (''params'', JObj [(''name'', JStr ''slack_post_message''),
                 (''arguments'', JObj [(''channel_id'', JStr ''C1''), (''text'', JStr ''hi'')])])]))
     (fresh [])))) =
     Some (Tool \<lparr>content = [\<lparr>item_type = ''text'',
        item_text = JSON_stringify
          (JObj [(''error'', JStr ''fetch failed''), (''status'', JStr ''failed'')])\<rparr>]\<rparr>)"
proof -
  let ?req = "mcp_request [(''x-slack-bot-token'', ''xoxb-1''), (''x-slack-team-id'', ''T1'')]
       (JObj [(''method'', JStr ''tools/call''), (''id'', JNum 3),
              (''params'', JObj [(''name'', JStr ''slack_post_message''),
                 (''arguments'', JObj [(''channel_id'', JStr ''C1''), (''text'', JStr ''hi'')])])])"
  have m: "opt_prop (body ?req) ''method'' = Some (JStr ''tools/call'')"
    by (simp add: mcp_request_def opt_prop_def)
  have c: "slack_credentials ?req = Some (''xoxb-1'', ''T1'')"
    by (simp add: mcp_request_def slack_credentials_def)
  have n: "to_String offline (tool_name ?req) = Inr ''slack_post_message''"
    by (simp add: mcp_request_def tool_params_def tool_name_def opt_prop_def or_else_def
        to_String_def)
  have d: "network_down offline"
    by (simp add: network_down_def offline_def)
  have run: "\<exists>s'. switch_tool offline (tool_name ?req) (tool_arguments ?req)
       (client_of ?req ''xoxb-1'' ''T1'') (received ?req (fresh [])) =
     (Inl (JsError ''TypeError'' ''fetch failed''), s')"
    by (simp add: switch_tool_def tool_params_def tool_name_def tool_arguments_def mcp_request_def
        opt_prop_def or_else_def get_prop_def postMessage_def fetch_def offline_def)
  have t: "error_text (JsError ''TypeError'' ''fetch failed'') = ''fetch failed''"
    by (simp add: error_text_def)
  show ?thesis
    using m c n d run t C3_tool_failures_are_results [OF m c, of offline "fresh []"]
    by (metis (no_types, lifting))
qed

text \<open>
  C3, as stated, fails for a tool name that is an object with an own \<^verbatim>\<open>toString\<close>
  property: the template literal of the \<^verbatim>\<open>default\<close> case throws, the one of the
  \<^verbatim>\<open>catch\<close> block throws again, and the answer is an error object with no result.
\<close>

theorem C3_unprintable_name_counterexample:
  "slack_credentials
     (mcp_request [(''x-slack-bot-token'', ''xoxb-1''), (''x-slack-team-id'', ''T1'')]
       (JObj [(''method'', JStr ''tools/call''), (''id'', JNum 3),
              (''params'', JObj [(''name'', JObj [(''toString'', JNum 1)])])])) =
     Some (''xoxb-1'', ''T1'') \<and>
   fst (mcp_handler scripted
     (mcp_request [(''x-slack-bot-token'', ''xoxb-1''), (''x-slack-team-id'', ''T1'')]
       (JObj [(''method'', JStr ''tools/call''), (''id'', JNum 3),
              (''params'', JObj [(''name'', JObj [(''toString'', JNum 1)])])])) (fresh [])) =
     \<lparr>status = 200,
      payload = \<lparr>jsonrpc = ''2.0'', rpc_result = None,
                 rpc_error = Some \<lparr>code = - 32603,
                   message = ''Internal error: Cannot convert object to primitive value''\<rparr>,
                 rpc_id = Some (JNum 3)\<rparr>\<rparr>"
  by (simp add: mcp_handler_def mcp_try_def mcp_request_def slack_credentials_def get_prop_def
      opt_prop_def or_else_def handleToolCall_def switch_tool_def to_String_def own_toString_def
      not_primitive_def error_text_def json_error_def id_or_null_def console_out_def)

text \<open>
  C7, as the code has it. For a tool name that is none of the eight case labels and
  whose conversion to a string does not throw (every string is such a name),
  \<^verbatim>\<open>handleToolCall\<close> returns one text item serialising
  \<^verbatim>\<open>{error: "Unknown tool: <name>", status: "failed"}\<close>. A \<^verbatim>\<open>tools/call\<close> that carries such a
  name, passes the gate and has both Slack credential headers is answered with this as
  its result, not with an error object, and makes no outbound request. With a name whose
  conversion throws the answer is the error -32603, and without the Slack credentials
  it is the error -32602.
\<close>

theorem C7_unknown_tool:
  assumes "\<forall>t \<in> set tool_names. name \<noteq> Some (JStr t)"
  shows "(\<forall>t. name = Some (JStr t) \<longrightarrow> to_String rt name = Inr t) \<and>
     (\<forall>n. to_String rt name = Inr n \<longrightarrow>
        handleToolCall rt name args c s =
          (Inr \<lparr>content = [\<lparr>item_type = ''text'',
              item_text = JSON_stringify
                (JObj [(''error'', JStr (''Unknown tool: '' @ n)),
                       (''status'', JStr ''failed'')])\<rparr>]\<rparr>,
           console_out Console_error
             [Text (''Error executing tool '' @ n @ '':''),
              Thrown (JsError ''Error'' (''Unknown tool: '' @ n))] s)) \<and>
     (opt_prop (body req) ''method'' = Some (JStr ''tools/call'') \<and> tool_name req = name \<and>
      fst (authMiddleware cfg rt req s) = Next \<longrightarrow>
        (\<forall>tok team n. slack_credentials req = Some (tok, team) \<and> to_String rt name = Inr n \<longrightarrow>
           fst (post_mcp cfg rt req s) =
             json_result
               (Tool \<lparr>content = [\<lparr>item_type = ''text'',
                  item_text = JSON_stringify
                    (JObj [(''error'', JStr (''Unknown tool: '' @ n)),
                           (''status'', JStr ''failed'')])\<rparr>]\<rparr>)
               (opt_prop (body req) ''id'') \<and>
           issued (snd (post_mcp cfg rt req s)) = issued s) \<and>
        (\<forall>tok team e. slack_credentials req = Some (tok, team) \<and> to_String rt name = Inl e \<longrightarrow>
           fst (post_mcp cfg rt req s) =
             json_error 200 (- 32603) (''Internal error: '' @ error_text e)
               (Some (id_or_null req)) \<and>
           issued (snd (post_mcp cfg rt req s)) = issued s) \<and>
        (slack_credentials req = None \<longrightarrow>
           fst (post_mcp cfg rt req s) =
             json_error 200 (- 32602) missing_credentials (opt_prop (body req) ''id'') \<and>
           issued (snd (post_mcp cfg rt req s)) = issued s))"
proof (intro conjI allI impI)
  fix t
  assume "name = Some (JStr t)"
  then show "to_String rt name = Inr t"
    by (simp add: to_String_def)
next
  fix n
  assume n: "to_String rt name = Inr n"
  have "switch_tool rt name args c s = (Inl (JsError ''Error'' (''Unknown tool: '' @ n)), s)"
    by (simp add: unknown_tool [OF assms] n)
  from handleToolCall_caught [OF this n]
  show "handleToolCall rt name args c s =
          (Inr \<lparr>content = [\<lparr>item_type = ''text'',
              item_text = JSON_stringify
                (JObj [(''error'', JStr (''Unknown tool: '' @ n)),
                       (''status'', JStr ''failed'')])\<rparr>]\<rparr>,
           console_out Console_error
             [Text (''Error executing tool '' @ n @ '':''),
              Thrown (JsError ''Error'' (''Unknown tool: '' @ n))] s)"
    by (simp add: text_content_def failed_payload_def error_text_def)
next
  fix tok team n
  assume a: "opt_prop (body req) ''method'' = Some (JStr ''tools/call'') \<and> tool_name req = name \<and>
      fst (authMiddleware cfg rt req s) = Next"
    and b: "slack_credentials req = Some (tok, team) \<and> to_String rt name = Inr n"
  let ?s1 = "snd (authMiddleware cfg rt req s)"
  have p: "post_mcp cfg rt req s = mcp_handler rt req ?s1"
    using a by (simp add: post_mcp_next)
  have sw: "switch_tool rt name (tool_arguments req) (client_of req tok team) (received req ?s1) =
      (Inl (JsError ''Error'' (''Unknown tool: '' @ n)), received req ?s1)"
    using b by (simp add: unknown_tool [OF assms])
  have call: "handleToolCall rt name (tool_arguments req) (client_of req tok team)
      (received req ?s1) =
     (Inr (text_content (failed_payload (JsError ''Error'' (''Unknown tool: '' @ n)))),
      console_out Console_error
        [Text (''Error executing tool '' @ n @ '':''),
         Thrown (JsError ''Error'' (''Unknown tool: '' @ n))] (received req ?s1))"
    using b by (intro handleToolCall_caught [OF sw]) simp
  have h: "mcp_handler rt req ?s1 =
     (json_result (Tool (text_content (failed_payload (JsError ''Error'' (''Unknown tool: '' @ n)))))
        (opt_prop (body req) ''id''),
      console_out Console_error
        [Text (''Error executing tool '' @ n @ '':''),
         Thrown (JsError ''Error'' (''Unknown tool: '' @ n))] (received req ?s1))"
    using a b handler_tools_call [of req tok team rt ?s1] by (simp add: call)
  show "fst (post_mcp cfg rt req s) =
             json_result
               (Tool \<lparr>content = [\<lparr>item_type = ''text'',
                  item_text = JSON_stringify
                    (JObj [(''error'', JStr (''Unknown tool: '' @ n)),
                           (''status'', JStr ''failed'')])\<rparr>]\<rparr>)
               (opt_prop (body req) ''id'')"
    by (simp add: p h text_content_def failed_payload_def error_text_def)
  show "issued (snd (post_mcp cfg rt req s)) = issued s"
    by (simp add: p h console_out_def received_def gate_keeps_issued)
next
  fix tok team e
  assume a: "opt_prop (body req) ''method'' = Some (JStr ''tools/call'') \<and> tool_name req = name \<and>
      fst (authMiddleware cfg rt req s) = Next"
    and b: "slack_credentials req = Some (tok, team) \<and> to_String rt name = Inl e"
  let ?s1 = "snd (authMiddleware cfg rt req s)"
  have p: "post_mcp cfg rt req s = mcp_handler rt req ?s1"
    using a by (simp add: post_mcp_next)
  have sw: "switch_tool rt name (tool_arguments req) (client_of req tok team) (received req ?s1) =
      (Inl e, received req ?s1)"
    using b by (simp add: unknown_tool [OF assms])
  have call: "handleToolCall rt name (tool_arguments req) (client_of req tok team)
      (received req ?s1) = (Inl e, received req ?s1)"
    using b by (intro handleToolCall_escapes [OF sw]) simp
  have h: "mcp_handler rt req ?s1 =
     (json_error 200 (- 32603) (''Internal error: '' @ error_text e) (Some (id_or_null req)),
      console_out Console_error [Text ''Error handling MCP request:'', Thrown e]
        (received req ?s1))"
    using a b handler_tools_call [of req tok team rt ?s1] by (simp add: call)
  show "fst (post_mcp cfg rt req s) =
      json_error 200 (- 32603) (''Internal error: '' @ error_text e) (Some (id_or_null req))"
    by (simp add: p h)
  show "issued (snd (post_mcp cfg rt req s)) = issued s"
    by (simp add: p h console_out_def received_def gate_keeps_issued)
next
  assume a: "opt_prop (body req) ''method'' = Some (JStr ''tools/call'') \<and> tool_name req = name \<and>
      fst (authMiddleware cfg rt req s) = Next"
    and b: "slack_credentials req = None"
  let ?s1 = "snd (authMiddleware cfg rt req s)"
  have p: "post_mcp cfg rt req s = mcp_handler rt req ?s1"
    using a by (simp add: post_mcp_next)
  have h: "mcp_handler rt req ?s1 =
     (json_error 200 (- 32602) missing_credentials (opt_prop (body req) ''id''),
      console_out Console_log [Text ''Received MCP request:'', Json_text (body req)] ?s1)"
    using a b by (simp add: handler_missing_credentials)
  show "fst (post_mcp cfg rt req s) =
      json_error 200 (- 32602) missing_credentials (opt_prop (body req) ''id'')"
    by (simp add: p h)
  show "issued (snd (post_mcp cfg rt req s)) = issued s"
    by (simp add: p h console_out_def gate_keeps_issued)
qed

theorem C7_unknown_tool_witness:
  "''slack_nonexistent'' \<notin> set tool_names \<and>
   opt_prop (body (mcp_request
       [(''x-secret-key'', ''s3cret''), (''x-slack-bot-token'', ''xoxb-1''), (''x-slack-team-id'', ''T1'')]
       (JObj [(''method'', JStr ''tools/call''), (''id'', JNum 5),
              (''params'', JObj [(''name'', JStr ''slack_nonexistent'')])]))) ''method'' =
     Some (JStr ''tools/call'') \<and>
   tool_name (mcp_request
       [(''x-secret-key'', ''s3cret''), (''x-slack-bot-token'', ''xoxb-1''), (''x-slack-team-id'', ''T1'')]
       (JObj [(''method'', JStr ''tools/call''), (''id'', JNum 5),
              (''params'', JObj [(''name'', JStr ''slack_nonexistent'')])])) =
     Some (JStr ''slack_nonexistent'') \<and>
   fst (authMiddleware guarded scripted (mcp_request
       [(''x-secret-key'', ''s3cret''), (''x-slack-bot-token'', ''xoxb-1''), (''x-slack-team-id'', ''T1'')]
       (JObj [(''method'', JStr ''tools/call''), (''id'', JNum 5),
              (''params'', JObj [(''name'', JStr ''slack_nonexistent'')])])) (fresh [])) = Next \<and>
   slack_credentials (mcp_request
       [(''x-secret-key'', ''s3cret''), (''x-slack-bot-token'', ''xoxb-1''), (''x-slack-team-id'', ''T1'')]
       (JObj [(''method'', JStr ''tools/call''), (''id'', JNum 5),
              (''params'', JObj [(''name'', JStr ''slack_nonexistent'')])])) =
     Some (''xoxb-1'', ''T1'') \<and>
   to_String scripted (Some (JStr ''slack_nonexistent'')) = Inr ''slack_nonexistent'' \<and>
   fst (post_mcp guarded scripted (mcp_request
       [(''x-secret-key'', ''s3cret''), (''x-slack-bot-token'', ''xoxb-1''), (''x-slack-team-id'', ''T1'')]
       (JObj [(''method'', JStr ''tools/call''), (''id'', JNum 5),
              (''params'', JObj [(''name'', JStr ''slack_nonexistent'')])])) (fresh [])) =
     json_result
       (Tool \<lparr>content = [\<lparr>item_type = ''text'',
          item_text = JSON_stringify
            (JObj [(''error'', JStr ''Unknown tool: slack_nonexistent''),
                   (''status'', JStr ''failed'')])\<rparr>]\<rparr>)
       (Some (JNum 5)) \<and>
   issued (snd (post_mcp guarded scripted (mcp_request
       [(''x-secret-key'', ''s3cret''), (''x-slack-bot-token'', ''xoxb-1''), (''x-slack-team-id'', ''T1'')]
       (JObj [(''method'', JStr ''tools/call''), (''id'', JNum 5),
              (''params'', JObj [(''name'', JStr ''slack_nonexistent'')])])) (fresh []))) = []"
proof -
  let ?req = "mcp_request
       [(''x-secret-key'', ''s3cret''), (''x-slack-bot-token'', ''xoxb-1''), (''x-slack-team-id'', ''T1'')]
       (JObj [(''method'', JStr ''tools/call''), (''id'', JNum 5),
              (''params'', JObj [(''name'', JStr ''slack_nonexistent'')])])"
  have t: "''slack_nonexistent'' \<notin> set tool_names"
    by (simp add: tool_names_def)
  have u: "\<forall>t \<in> set tool_names. Some (JStr ''slack_nonexistent'') \<noteq> Some (JStr t)"
    by (simp add: tool_names_def)
  have m: "opt_prop (body ?req) ''method'' = Some (JStr ''tools/call'')"
    by (simp add: mcp_request_def opt_prop_def)
  have n: "tool_name ?req = Some (JStr ''slack_nonexistent'')"
    by (simp add: mcp_request_def tool_params_def tool_name_def opt_prop_def or_else_def)
  have g: "fst (authMiddleware guarded scripted ?req (fresh [])) = Next"
    by (simp add: authMiddleware_def guarded_def mcp_request_def opt_prop_def truthy_str_def)
  have c: "slack_credentials ?req = Some (''xoxb-1'', ''T1'')"
    by (simp add: mcp_request_def slack_credentials_def)
  have s: "to_String scripted (Some (JStr ''slack_nonexistent'')) = Inr ''slack_nonexistent''"
    by (simp add: to_String_def)
  have i: "opt_prop (body ?req) ''id'' = Some (JNum 5)"
    by (simp add: mcp_request_def opt_prop_def)
  have z: "issued (fresh ([] :: (js_error + json) list)) = []"
    by (simp add: fresh_def)
  have a: "opt_prop (body ?req) ''method'' = Some (JStr ''tools/call'') \<and>
      tool_name ?req = Some (JStr ''slack_nonexistent'') \<and>
      fst (authMiddleware guarded scripted ?req (fresh [])) = Next"
    by (intro conjI) (rule m n g)+
  have b: "slack_credentials ?req = Some (''xoxb-1'', ''T1'') \<and>
      to_String scripted (Some (JStr ''slack_nonexistent'')) = Inr ''slack_nonexistent''"
    by (intro conjI) (rule c s)+
  note answered = C7_unknown_tool [OF u, of scripted "JObj []" "client_of ?req ''xoxb-1'' ''T1''"
      "fresh []" ?req guarded, THEN conjunct2, THEN conjunct2, THEN mp, OF a, THEN conjunct1,
      rule_format, OF b]
  from answered t m n g c s show ?thesis
    by (simp add: i z)
qed

text \<open>
  C7, as stated, fails for a \<^verbatim>\<open>tools/call\<close> with an unknown tool name that has passed
  the gate without the Slack credential headers, which is answered with the top-level
  error -32602, and for one whose name is an object with an own \<^verbatim>\<open>toString\<close> property,
  which is answered with the top-level error -32603.
\<close>

theorem C7_top_level_error_counterexample:
  "''slack_nonexistent'' \<notin> set tool_names \<and>
   fst (post_mcp guarded scripted
     (mcp_request [(''x-secret-key'', ''s3cret'')]
       (JObj [(''method'', JStr ''tools/call''), (''id'', JNum 5),
              (''params'', JObj [(''name'', JStr ''slack_nonexistent'')])])) (fresh [])) =
     \<lparr>status = 200,
      payload = \<lparr>jsonrpc = ''2.0'', rpc_result = None,
                 rpc_error = Some \<lparr>code = - 32602, message = missing_credentials\<rparr>,
                 rpc_id = Some (JNum 5)\<rparr>\<rparr> \<and>
   fst (post_mcp guarded scripted
     (mcp_request
       [(''x-secret-key'', ''s3cret''), (''x-slack-bot-token'', ''xoxb-1''), (''x-slack-team-id'', ''T1'')]
       (JObj [(''method'', JStr ''tools/call''), (''id'', JNum 5),
              (''params'', JObj [(''name'', JObj [(''toString'', JNull)])])])) (fresh [])) =
     \<lparr>status = 200,
      payload = \<lparr>jsonrpc = ''2.0'', rpc_result = None,
                 rpc_error = Some \<lparr>code = - 32603,
                   message = ''Internal error: Cannot convert object to primitive value''\<rparr>,
                 rpc_id = Some (JNum 5)\<rparr>\<rparr>"
  by (simp add: post_mcp_def authMiddleware_def guarded_def truthy_str_def tool_names_def
      mcp_handler_def mcp_try_def mcp_request_def slack_credentials_def get_prop_def
      opt_prop_def or_else_def handleToolCall_def switch_tool_def to_String_def own_toString_def
      not_primitive_def error_text_def json_error_def id_or_null_def console_out_def)

section \<open>The client\<close>

lemma fetch_issued: "issued (snd (fetch rt c s)) = issued s @ [c]"
  by (simp add: fetch_def split: prod.splits)

lemma math_min_200:
  "math_min x (Fin 200) \<noteq> PosInf \<and> (\<forall>r. math_min x (Fin 200) = Fin r \<longrightarrow> r \<le> 200)"
  by (cases x) simp_all

text \<open>
  C9. \<^verbatim>\<open>getUsers\<close> sends nothing when \<^verbatim>\<open>Math.min(limit, 200)\<close> or the conversion of the
  cursor throws, and otherwise issues exactly one request, to the users-list endpoint,
  whose \<^verbatim>\<open>limit\<close> parameter is the printed value of \<^verbatim>\<open>Math.min(limit, 200)\<close>: 100 when
  no limit is given, the smaller of the limit and 200 when a number is given, and never
  a number above 200 whatever is given.
\<close>

theorem C9_users_limit:
  "capped_limit rt None = Inr (Fin 100) \<and>
   capped_limit rt (Some (JNum n)) = Inr (Fin (min n 200)) \<and>
   (\<forall>v. capped_limit rt limit = Inr v \<longrightarrow> v \<noteq> PosInf \<and> (\<forall>r. v = Fin r \<longrightarrow> r \<le> 200)) \<and>
   (\<forall>v p. capped_limit rt limit = Inr v \<and> cursor_param rt cursor = Inr p \<longrightarrow>
      getUsers rt c limit cursor s =
        fetch rt \<lparr>url = ''https://slack.com/api/users.list'', verb = ''GET'',
                  query = [(''limit'', jsnum_toString rt v), (''team_id'', teamId c)] @ p,
                  call_headers = botHeaders c, call_body = None\<rparr> s \<and>
      issued (snd (getUsers rt c limit cursor s)) =
        issued s @
        [\<lparr>url = ''https://slack.com/api/users.list'', verb = ''GET'',
          query = [(''limit'', jsnum_toString rt v), (''team_id'', teamId c)] @ p,
          call_headers = botHeaders c, call_body = None\<rparr>]) \<and>
   (\<forall>e. capped_limit rt limit = Inl e \<longrightarrow> getUsers rt c limit cursor s = (Inl e, s)) \<and>
   (\<forall>v e. capped_limit rt limit = Inr v \<and> cursor_param rt cursor = Inl e \<longrightarrow>
      getUsers rt c limit cursor s = (Inl e, s)) \<and>
   cursor_param rt None = Inr [] \<and>
   issued (snd (getUsers rt c None None s)) =
     issued s @
     [\<lparr>url = ''https://slack.com/api/users.list'', verb = ''GET'',
       query = [(''limit'', number_toString rt 100), (''team_id'', teamId c)],
       call_headers = botHeaders c, call_body = None\<rparr>] \<and>
   issued (snd (getUsers rt c (Some (JNum n)) None s)) =
     issued s @
     [\<lparr>url = ''https://slack.com/api/users.list'', verb = ''GET'',
       query = [(''limit'', number_toString rt (min n 200)), (''team_id'', teamId c)],
       call_headers = botHeaders c, call_body = None\<rparr>]"
proof -
  have none: "capped_limit rt None = Inr (Fin 100)"
    and num: "capped_limit rt (Some (JNum n)) = Inr (Fin (min n 200))"
    by (simp_all add: capped_limit_def default_param_def)
  have nocursor: "cursor_param rt None = Inr []"
    by (simp add: cursor_param_def truthy_val_def)
  have bound: "\<forall>v. capped_limit rt limit = Inr v \<longrightarrow> v \<noteq> PosInf \<and> (\<forall>r. v = Fin r \<longrightarrow> r \<le> 200)"
    using math_min_200
    by (auto simp: capped_limit_def split: sum.splits)
  have sent: "\<forall>v p. capped_limit rt limit = Inr v \<and> cursor_param rt cursor = Inr p \<longrightarrow>
      getUsers rt c limit cursor s =
        fetch rt \<lparr>url = ''https://slack.com/api/users.list'', verb = ''GET'',
                  query = [(''limit'', jsnum_toString rt v), (''team_id'', teamId c)] @ p,
                  call_headers = botHeaders c, call_body = None\<rparr> s \<and>
      issued (snd (getUsers rt c limit cursor s)) =
        issued s @
        [\<lparr>url = ''https://slack.com/api/users.list'', verb = ''GET'',
          query = [(''limit'', jsnum_toString rt v), (''team_id'', teamId c)] @ p,
          call_headers = botHeaders c, call_body = None\<rparr>]"
    by (simp add: getUsers_def users_call_def fetch_built_def get_call_def fetch_issued)
  have thrown1: "\<forall>e. capped_limit rt limit = Inl e \<longrightarrow> getUsers rt c limit cursor s = (Inl e, s)"
    by (simp add: getUsers_def users_call_def fetch_built_def)
  have thrown2: "\<forall>v e. capped_limit rt limit = Inr v \<and> cursor_param rt cursor = Inl e \<longrightarrow>
      getUsers rt c limit cursor s = (Inl e, s)"
    by (simp add: getUsers_def users_call_def fetch_built_def)
  have absent: "issued (snd (getUsers rt c None None s)) =
     issued s @
     [\<lparr>url = ''https://slack.com/api/users.list'', verb = ''GET'',
       query = [(''limit'', number_toString rt 100), (''team_id'', teamId c)],
       call_headers = botHeaders c, call_body = None\<rparr>]"
    by (simp add: getUsers_def users_call_def fetch_built_def get_call_def fetch_issued none
        nocursor)
  have given: "issued (snd (getUsers rt c (Some (JNum n)) None s)) =
     issued s @
     [\<lparr>url = ''https://slack.com/api/users.list'', verb = ''GET'',
       query = [(''limit'', number_toString rt (min n 200)), (''team_id'', teamId c)],
       call_headers = botHeaders c, call_body = None\<rparr>]"
    by (simp add: getUsers_def users_call_def fetch_built_def get_call_def fetch_issued num
        nocursor)
  from none num bound sent thrown1 thrown2 nocursor absent given show ?thesis
    by (intro conjI)
qed

theorem C9_users_limit_witness:
  "capped_limit scripted (Some (JNum 500)) = Inr (Fin 200) \<and> (200::rat) \<le> 200 \<and>
   cursor_param scripted None = Inr [] \<and>
   issued (snd (getUsers scripted (new_SlackClient ''xoxb-1'' ''T1'' None) (Some (JNum 500)) None
     (fresh []))) =
     [\<lparr>url = ''https://slack.com/api/users.list'', verb = ''GET'',
       query = [(''limit'', ''200''), (''team_id'', ''T1'')],
       call_headers = [(''Authorization'', ''Bearer xoxb-1''),
                       (''Content-Type'', ''application/json'')],
       call_body = None\<rparr>]"
proof -
  have d: "number_toString scripted 200 = ''200''"
    by (simp add: scripted_def)
  have m: "min (500::rat) 200 = 200"
    by simp
  have z: "issued (fresh ([] :: (js_error + json) list)) = []"
    by (simp add: fresh_def)
  note all = C9_users_limit [of scripted 500 "Some (JNum 500)" None
      "new_SlackClient ''xoxb-1'' ''T1'' None" "fresh []"]
  note num = all [THEN conjunct2, THEN conjunct1]
  note nocursor = all [THEN conjunct2, THEN conjunct2, THEN conjunct2, THEN conjunct2,
      THEN conjunct2, THEN conjunct2, THEN conjunct1]
  note given = all [THEN conjunct2, THEN conjunct2, THEN conjunct2, THEN conjunct2,
      THEN conjunct2, THEN conjunct2, THEN conjunct2, THEN conjunct2]
  have "capped_limit scripted (Some (JNum 500)) = Inr (Fin 200)"
    using num by (simp add: m)
  moreover have "issued (snd (getUsers scripted (new_SlackClient ''xoxb-1'' ''T1'' None)
      (Some (JNum 500)) None (fresh []))) =
     [\<lparr>url = ''https://slack.com/api/users.list'', verb = ''GET'',
       query = [(''limit'', ''200''), (''team_id'', ''T1'')],
       call_headers = [(''Authorization'', ''Bearer xoxb-1''),
                       (''Content-Type'', ''application/json'')],
       call_body = None\<rparr>]"
    using given by (simp add: m d z new_SlackClient_def)
  ultimately show ?thesis
    using nocursor by simp
qed

lemma pushed_answered: "answered (Inr data) \<Longrightarrow> pushed data = Inr (looked_up data)"
  by (cases data)
     (auto simp: answered_def pushed_def looked_up_def get_prop_def split: option.splits)

lemma pushed_null: "pushed JNull = Inl (cannot_read ''null'' ''ok'')"
  by (simp add: pushed_def get_prop_def)

lemma not_answered: "\<not> answered r \<Longrightarrow> (\<exists>e. r = Inl e) \<or> r = Inr JNull"
  by (cases r) (simp_all add: answered_def)

lemma lookup_loop_run:
  "lookup_loop rt c ids channels s =
     (let rs = answers rt (map (info_call c) ids) (upstream s);
          k = length (takeWhile answered rs)
      in if k = length ids
         then (Inr (channels @ listed rs),
               s\<lparr>upstream := upstream_after rt (map (info_call c) ids) (upstream s),
                 issued := issued s @ map (info_call c) ids\<rparr>)
         else (Inl (thrown_by (rs ! k)),
               s\<lparr>upstream := upstream_after rt (map (info_call c) (take (Suc k) ids)) (upstream s),
                 issued := issued s @ map (info_call c) (take (Suc k) ids)\<rparr>))"
proof (induction ids arbitrary: channels s)
  case Nil
  then show ?case by (simp add: listed_def)
next
  case (Cons i rest)
  obtain r w where f: "fetch_json rt (upstream s) (info_call c i) = (r, w)"
    by (cases "fetch_json rt (upstream s) (info_call c i)")
  let ?s' = "s\<lparr>upstream := w, issued := issued s @ [info_call c i]\<rparr>"
  have step: "fetch rt (info_call c i) s = (r, ?s')"
    using f by (simp add: fetch_def)
  show ?case
  proof (cases "answered r")
    case True
    then obtain data where r: "r = Inr data"
      by (cases r) (simp_all add: answered_def)
    have p: "pushed data = Inr (looked_up data)"
      using True r by (simp add: pushed_answered)
    have l: "\<And>rs. listed (Inr data # rs) = looked_up data @ listed rs"
      by (simp add: listed_def)
    show ?thesis
      using Cons.IH [of "channels @ looked_up data" ?s'] True
      by (simp add: step r p f l Let_def)
  next
    case False
    then consider e where "r = Inl e" | "r = Inr JNull"
      using not_answered by blast
    then show ?thesis
    proof cases
      case 1
      with False show ?thesis
        by (simp add: step f thrown_by_def Let_def)
    next
      case 2
      with False show ?thesis
        by (simp add: step f thrown_by_def pushed_null Let_def)
    qed
  qed
qed

text \<open>
  C6, as the code has it. With a non-empty \<^verbatim>\<open>x-slack-channel-ids\<close> header,
  \<^verbatim>\<open>getChannels\<close> issues lookups only, one after the other, for the trimmed
  comma-separated ids in header order. A lookup throws when its request or the reading
  of its body fails or when the body is \<^verbatim>\<open>null\<close>. When none throws there is one lookup
  per id and the result is \<^verbatim>\<open>{ok: true, channels, response_metadata: {next_cursor: ""}}\<close>,
  the channels being those of the answers, in order, that report \<^verbatim>\<open>ok\<close> and a channel
  that is not archived. Otherwise the lookups stop with the first that throws, the ids
  after it are not looked up, and \<^verbatim>\<open>getChannels\<close> throws what that lookup threw.
\<close>

theorem C6_predefined_channels:
  assumes "channelIds c = Some hdr" and "hdr \<noteq> []"
  shows "getChannels rt c limit cursor s =
     (let ids = map trim (split_comma hdr);
          lookups = map (\<lambda>channelId.
                      \<lparr>url = ''https://slack.com/api/conversations.info'', verb = ''GET'',
                       query = [(''channel'', channelId)],
                       call_headers = botHeaders c, call_body = None\<rparr>) ids;
          rs = answers rt lookups (upstream s);
          k = length (takeWhile answered rs)
      in if k = length ids
         then (Inr (JObj [(''ok'', JBool True),
                          (''channels'', JArr (listed rs)),
                          (''response_metadata'', JObj [(''next_cursor'', JStr [])])]),
               s\<lparr>upstream := upstream_after rt lookups (upstream s),
                 issued := issued s @ lookups\<rparr>)
         else (Inl (thrown_by (rs ! k)),
               s\<lparr>upstream := upstream_after rt (take (Suc k) lookups) (upstream s),
                 issued := issued s @ take (Suc k) lookups\<rparr>))"
proof -
  have info: "(\<lambda>channelId.
        \<lparr>url = ''https://slack.com/api/conversations.info'', verb = ''GET'',
         query = [(''channel'', channelId)],
         call_headers = botHeaders c, call_body = None\<rparr>) = info_call c"
    by (simp add: info_call_def get_call_def fun_eq_iff)
  show ?thesis
    unfolding info
    using assms
    by (simp add: getChannels_def lookup_loop_run [of rt c _ "[]" s] channels_result_def Let_def
        take_map)
qed

lemma split_example: "map trim (split_comma ''C1, C2,C3'') = [''C1'', ''C2'', ''C3'']"
  by (simp add: trim_def is_space_def)

theorem C6_predefined_channels_witness:
  "channelIds (new_SlackClient ''xoxb-1'' ''T1'' (Some ''C1, C2,C3'')) = Some ''C1, C2,C3'' \<and>
   ''C1, C2,C3'' \<noteq> [] \<and>
   fst (getChannels scripted (new_SlackClient ''xoxb-1'' ''T1'' (Some ''C1, C2,C3'')) None None
     (fresh [lookup_ok chan_general, lookup_ok chan_attic, lookup_ok chan_random])) =
     Inr (JObj [(''ok'', JBool True), (''channels'', JArr [chan_general, chan_random]),
                (''response_metadata'', JObj [(''next_cursor'', JStr [])])]) \<and>
   issued (snd (getChannels scripted (new_SlackClient ''xoxb-1'' ''T1'' (Some ''C1, C2,C3'')) None None
     (fresh [lookup_ok chan_general, lookup_ok chan_attic, lookup_ok chan_random]))) =
     map (info_call (new_SlackClient ''xoxb-1'' ''T1'' (Some ''C1, C2,C3''))) [''C1'', ''C2'', ''C3''] \<and>
   fst (getChannels scripted (new_SlackClient ''xoxb-1'' ''T1'' (Some ''C1, C2,C3'')) None None
     (fresh [lookup_ok chan_general, Inr JNull, lookup_ok chan_random])) =
     Inl (cannot_read ''null'' ''ok'') \<and>
   issued (snd (getChannels scripted (new_SlackClient ''xoxb-1'' ''T1'' (Some ''C1, C2,C3'')) None None
     (fresh [lookup_ok chan_general, Inr JNull, lookup_ok chan_random]))) =
     map (info_call (new_SlackClient ''xoxb-1'' ''T1'' (Some ''C1, C2,C3''))) [''C1'', ''C2'']"
proof -
  let ?c = "new_SlackClient ''xoxb-1'' ''T1'' (Some ''C1, C2,C3'')"
  let ?s = "fresh [lookup_ok chan_general, lookup_ok chan_attic, lookup_ok chan_random]"
  let ?t = "fresh [lookup_ok chan_general, Inr JNull, lookup_ok chan_random]"
  have h: "channelIds ?c = Some ''C1, C2,C3''"
    by (simp add: new_SlackClient_def)
  have ne: "''C1, C2,C3'' \<noteq> []"
    by simp
  have ans: "\<And>a b d x y z. answers scripted [x, y, z] (upstream (fresh [a, b, d])) = [a, b, d]"
    by (simp add: scripted_def fresh_def)
  have i: "\<And>w :: (js_error + json) list. issued (fresh w) = []"
    by (simp add: fresh_def)
  have th: "thrown_by (Inr JNull) = cannot_read ''null'' ''ok''"
    by (simp add: thrown_by_def)
  have info: "\<And>x. info_call ?c x =
      \<lparr>url = ''https://slack.com/api/conversations.info'', verb = ''GET'',
       query = [(''channel'', x)], call_headers = botHeaders ?c, call_body = None\<rparr>"
    by (simp add: info_call_def get_call_def)
  note good = C6_predefined_channels [OF h ne, of scripted None None ?s, unfolded split_example]
  note bad = C6_predefined_channels [OF h ne, of scripted None None ?t, unfolded split_example]
  have "fst (getChannels scripted ?c None None ?s) =
      Inr (JObj [(''ok'', JBool True), (''channels'', JArr [chan_general, chan_random]),
                 (''response_metadata'', JObj [(''next_cursor'', JStr [])])])"
    and "issued (snd (getChannels scripted ?c None None ?s)) =
      map (info_call ?c) [''C1'', ''C2'', ''C3'']"
    unfolding good
    by (simp_all add: ans i info Let_def answered_def lookup_ok_def listed_def looked_up_def
        truthy_val_def chan_general_def chan_attic_def chan_random_def del: answers.simps)
  moreover have "fst (getChannels scripted ?c None None ?t) = Inl (cannot_read ''null'' ''ok'')"
    and "issued (snd (getChannels scripted ?c None None ?t)) = map (info_call ?c) [''C1'', ''C2'']"
    unfolding bad
    by (simp_all add: ans i th info Let_def answered_def lookup_ok_def del: answers.simps)
  ultimately show ?thesis
    using h ne by (intro conjI)
qed

text \<open>
  C6, as stated, fails when a lookup throws: with the network down and the header
  \<^verbatim>\<open>C1,C2\<close> the only request issued is the lookup of \<^verbatim>\<open>C1\<close>, \<^verbatim>\<open>getChannels\<close> throws
  instead of returning an object, and the tool answers with the failed payload.
\<close>

theorem C6_failed_lookup_counterexample:
  "channelIds (new_SlackClient ''xoxb-1'' ''T1'' (Some ''C1,C2'')) = Some ''C1,C2'' \<and>
   map trim (split_comma ''C1,C2'') = [''C1'', ''C2''] \<and>
   fst (getChannels offline (new_SlackClient ''xoxb-1'' ''T1'' (Some ''C1,C2'')) None None (fresh [])) =
     Inl (JsError ''TypeError'' ''fetch failed'') \<and>
   issued (snd (getChannels offline (new_SlackClient ''xoxb-1'' ''T1'' (Some ''C1,C2'')) None None
     (fresh []))) =
     [info_call (new_SlackClient ''xoxb-1'' ''T1'' (Some ''C1,C2'')) ''C1''] \<and>
   fst (handleToolCall offline (Some (JStr ''slack_list_channels'')) (JObj [])
     (new_SlackClient ''xoxb-1'' ''T1'' (Some ''C1,C2'')) (fresh [])) =
     Inr \<lparr>content = [\<lparr>item_type = ''text'',
        item_text = JSON_stringify
          (JObj [(''error'', JStr ''fetch failed''), (''status'', JStr ''failed'')])\<rparr>]\<rparr>"
  by (simp add: getChannels_def new_SlackClient_def trim_def is_space_def fetch_def offline_def
      fresh_def handleToolCall_def switch_tool_def get_prop_def text_content_def failed_payload_def
      error_text_def to_String_def)

section \<open>Arguments are not validated\<close>

lemma get_prop_Inr: "get_prop b k = Inr v \<Longrightarrow> opt_prop b k = v"
  by (auto simp: get_prop_def opt_prop_def split: option.splits json.splits)

lemma get_prop_Inl: "get_prop b k = Inl e \<Longrightarrow> opt_prop b k = None"
  by (auto simp: get_prop_def opt_prop_def split: option.splits json.splits)

lemma no_credentials:
  "slack_credentials req = None \<longleftrightarrow>
   headers req ''x-slack-bot-token'' = None \<or> headers req ''x-slack-bot-token'' = Some [] \<or>
   headers req ''x-slack-team-id'' = None \<or> headers req ''x-slack-team-id'' = Some []"
  by (auto simp: slack_credentials_def split: option.splits)

lemma handler_error_code:
  "(\<exists>m. rpc_error (payload (fst (mcp_handler rt req s))) = Some \<lparr>code = - 32602, message = m\<rparr>) \<longleftrightarrow>
   (opt_prop (body req) ''method'' = Some (JStr ''tools/call'') \<and> slack_credentials req = None)"
proof (cases "get_prop (body req) ''method''")
  case (Inl e)
  then show ?thesis
    by (simp add: mcp_handler_def mcp_try_def Let_def json_error_def get_prop_Inl)
next
  case (Inr found)
  then have m: "opt_prop (body req) ''method'' = found"
    by (rule get_prop_Inr)
  show ?thesis
    using Inr
    by (auto simp: mcp_handler_def mcp_try_def Let_def json_error_def json_result_def m
        split: option.splits prod.splits sum.splits)
qed

lemma tool_arguments_not_null: "tool_arguments req \<noteq> JNull"
  by (auto simp: tool_arguments_def or_else_def split: option.splits)

lemma get_prop_not_null: "a \<noteq> JNull \<Longrightarrow> get_prop (Some a) k = Inr (member a k)"
  by (cases a) (simp_all add: get_prop_def)

lemma handleToolCall_issued:
  "issued (snd (handleToolCall rt n a c s)) = issued (snd (switch_tool rt n a c s))"
  by (simp add: handleToolCall_def console_out_def split: prod.splits sum.splits)

lemma handler_issued:
  assumes "opt_prop (body req) ''method'' = Some (JStr ''tools/call'')"
    and "slack_credentials req = Some (tok, team)"
  shows "issued (snd (mcp_handler rt req s)) =
     issued (snd (switch_tool rt (tool_name req) (tool_arguments req) (client_of req tok team)
                    (received req s)))"
proof -
  have "issued (snd (mcp_handler rt req s)) =
      issued (snd (handleToolCall rt (tool_name req) (tool_arguments req) (client_of req tok team)
                     (received req s)))"
    by (simp add: handler_tools_call [OF assms] console_out_def split: prod.splits sum.splits)
  then show ?thesis
    by (simp add: handleToolCall_issued)
qed

lemma received_issued: "issued (received req s) = issued s"
  by (simp add: received_def console_out_def)

lemma known_tool_result:
  assumes "opt_prop (body req) ''method'' = Some (JStr ''tools/call'')"
    and "slack_credentials req = Some (tok, team)"
    and "tool_name req = Some (JStr n)"
  shows "status (fst (mcp_handler rt req s)) = 200 \<and>
     rpc_error (payload (fst (mcp_handler rt req s))) = None \<and>
     (\<exists>r. rpc_result (payload (fst (mcp_handler rt req s))) = Some (Tool r))"
proof -
  have "\<exists>r s'. handleToolCall rt (Some (JStr n)) (tool_arguments req) (client_of req tok team)
      (received req s) = (Inr r, s')"
    by (simp add: handleToolCall_def to_String_JStr split: prod.splits sum.splits)
  then show ?thesis
    using assms(3) by (auto simp: handler_tools_call [OF assms(1,2)] json_result_def)
qed

lemma sent:
  "built = Inr call \<Longrightarrow> issued (snd (fetch_built rt built s)) = issued s @ [call]"
  by (simp add: fetch_built_def fetch_issued)

lemma not_sent:
  "built = Inl e \<Longrightarrow> issued (snd (fetch_built rt built s)) = issued s"
  by (simp add: fetch_built_def)

text \<open>
  C10, as the code has it. The handler validates no argument. The error -32602 is
  produced exactly when a \<^verbatim>\<open>tools/call\<close> has an absent or empty Slack credential header;
  absent or falsy \<^verbatim>\<open>params.arguments\<close> are replaced by the empty object; a \<^verbatim>\<open>tools/call\<close>
  that names one of the eight tools is answered with status 200 and a result, never an
  error object. Each tool issues its one upstream request with whatever the arguments
  hold (\<^verbatim>\<open>slack_list_channels\<close> when no channel ids come with the request; with them
  it issues the lookups of C6): a missing field is \<^verbatim>\<open>undefined\<close>, which a JSON body
  drops and a query string prints as "undefined", the limit defaulting to 10 or 100.
  The request is issued provided the conversions made while it is built
  (\<^verbatim>\<open>limit.toString()\<close>, \<^verbatim>\<open>Math.min(limit, 200)\<close>, the string conversion of a query
  parameter) do not throw; when one throws, no request is issued.
\<close>

theorem C10_arguments_not_validated:
  "((\<exists>m. rpc_error (payload (fst (mcp_handler rt req s))) = Some \<lparr>code = - 32602, message = m\<rparr>) \<longleftrightarrow>
      (opt_prop (body req) ''method'' = Some (JStr ''tools/call'') \<and>
       (headers req ''x-slack-bot-token'' = None \<or> headers req ''x-slack-bot-token'' = Some [] \<or>
        headers req ''x-slack-team-id'' = None \<or> headers req ''x-slack-team-id'' = Some []))) \<and>
   tool_arguments req =
     (if truthy_val (member (tool_params req) ''arguments'')
      then the (member (tool_params req) ''arguments'') else JObj []) \<and>
   to_String rt None = Inr ''undefined'' \<and>
   limit_toString rt (default_param None (JNum 10)) = Inr (number_toString rt 10) \<and>
   capped_limit rt None = Inr (Fin 100) \<and>
   cursor_param rt None = Inr [] \<and>
   (opt_prop (body req) ''method'' = Some (JStr ''tools/call'') \<and>
    slack_credentials req = Some (tok, team) \<longrightarrow>
      (\<forall>n. tool_name req = Some (JStr n) \<longrightarrow>
         status (fst (mcp_handler rt req s)) = 200 \<and>
         rpc_error (payload (fst (mcp_handler rt req s))) = None \<and>
         (\<exists>r. rpc_result (payload (fst (mcp_handler rt req s))) = Some (Tool r))) \<and>
      (tool_name req = Some (JStr ''slack_post_message'') \<longrightarrow>
         issued (snd (mcp_handler rt req s)) =
           issued s @
           [\<lparr>url = ''https://slack.com/api/chat.postMessage'', verb = ''POST'', query = [],
             call_headers = [(''Authorization'', ''Bearer '' @ tok),
                             (''Content-Type'', ''application/json'')],
             call_body = Some [(''channel'', member (tool_arguments req) ''channel_id''),
                               (''text'', member (tool_arguments req) ''text'')]\<rparr>]) \<and>
      (tool_name req = Some (JStr ''slack_reply_to_thread'') \<longrightarrow>
         issued (snd (mcp_handler rt req s)) =
           issued s @
           [\<lparr>url = ''https://slack.com/api/chat.postMessage'', verb = ''POST'', query = [],
             call_headers = [(''Authorization'', ''Bearer '' @ tok),
                             (''Content-Type'', ''application/json'')],
             call_body = Some [(''channel'', member (tool_arguments req) ''channel_id''),
                               (''thread_ts'', member (tool_arguments req) ''thread_ts''),
                               (''text'', member (tool_arguments req) ''text'')]\<rparr>]) \<and>
      (tool_name req = Some (JStr ''slack_add_reaction'') \<longrightarrow>
         issued (snd (mcp_handler rt req s)) =
           issued s @
           [\<lparr>url = ''https://slack.com/api/reactions.add'', verb = ''POST'', query = [],
             call_headers = [(''Authorization'', ''Bearer '' @ tok),
                             (''Content-Type'', ''application/json'')],
             call_body = Some [(''channel'', member (tool_arguments req) ''channel_id''),
                               (''timestamp'', member (tool_arguments req) ''timestamp''),
                               (''name'', member (tool_arguments req) ''reaction'')]\<rparr>]) \<and>
      (tool_name req = Some (JStr ''slack_get_channel_history'') \<longrightarrow>
         (\<forall>l ch. limit_toString rt (default_param (member (tool_arguments req) ''limit'') (JNum 10)) =
                   Inr l \<and>
                 to_String rt (member (tool_arguments req) ''channel_id'') = Inr ch \<longrightarrow>
            issued (snd (mcp_handler rt req s)) =
              issued s @
              [\<lparr>url = ''https://slack.com/api/conversations.history'', verb = ''GET'',
                query = [(''channel'', ch), (''limit'', l)],
                call_headers = [(''Authorization'', ''Bearer '' @ tok),
                                (''Content-Type'', ''application/json'')],
                call_body = None\<rparr>]) \<and>
         (\<forall>e. limit_toString rt (default_param (member (tool_arguments req) ''limit'') (JNum 10)) =
                 Inl e \<or>
               to_String rt (member (tool_arguments req) ''channel_id'') = Inl e \<longrightarrow>
            issued (snd (mcp_handler rt req s)) = issued s)) \<and>
      (tool_name req = Some (JStr ''slack_get_thread_replies'') \<longrightarrow>
         (\<forall>ch ts. to_String rt (member (tool_arguments req) ''channel_id'') = Inr ch \<and>
                  to_String rt (member (tool_arguments req) ''thread_ts'') = Inr ts \<longrightarrow>
            issued (snd (mcp_handler rt req s)) =
              issued s @
              [\<lparr>url = ''https://slack.com/api/conversations.replies'', verb = ''GET'',
                query = [(''channel'', ch), (''ts'', ts)],
                call_headers = [(''Authorization'', ''Bearer '' @ tok),
                                (''Content-Type'', ''application/json'')],
                call_body = None\<rparr>]) \<and>
         (\<forall>e. to_String rt (member (tool_arguments req) ''channel_id'') = Inl e \<or>
               to_String rt (member (tool_arguments req) ''thread_ts'') = Inl e \<longrightarrow>
            issued (snd (mcp_handler rt req s)) = issued s)) \<and>
      (tool_name req = Some (JStr ''slack_get_users'') \<longrightarrow>
         (\<forall>v p. capped_limit rt (member (tool_arguments req) ''limit'') = Inr v \<and>
                cursor_param rt (member (tool_arguments req) ''cursor'') = Inr p \<longrightarrow>
            issued (snd (mcp_handler rt req s)) =
              issued s @
              [\<lparr>url = ''https://slack.com/api/users.list'', verb = ''GET'',
                query = [(''limit'', jsnum_toString rt v), (''team_id'', team)] @ p,
                call_headers = [(''Authorization'', ''Bearer '' @ tok),
                                (''Content-Type'', ''application/json'')],
                call_body = None\<rparr>]) \<and>
         (\<forall>e. capped_limit rt (member (tool_arguments req) ''limit'') = Inl e \<or>
               cursor_param rt (member (tool_arguments req) ''cursor'') = Inl e \<longrightarrow>
            issued (snd (mcp_handler rt req s)) = issued s)) \<and>
      (tool_name req = Some (JStr ''slack_get_user_profile'') \<longrightarrow>
         (\<forall>u. to_String rt (member (tool_arguments req) ''user_id'') = Inr u \<longrightarrow>
            issued (snd (mcp_handler rt req s)) =
              issued s @
              [\<lparr>url = ''https://slack.com/api/users.profile.get'', verb = ''GET'',
                query = [(''user'', u), (''include_labels'', ''true'')],
                call_headers = [(''Authorization'', ''Bearer '' @ tok),
                                (''Content-Type'', ''application/json'')],
                call_body = None\<rparr>]) \<and>
         (\<forall>e. to_String rt (member (tool_arguments req) ''user_id'') = Inl e \<longrightarrow>
            issued (snd (mcp_handler rt req s)) = issued s)) \<and>
      (tool_name req = Some (JStr ''slack_list_channels'') \<and>
       (headers req ''x-slack-channel-ids'' = None \<or> headers req ''x-slack-channel-ids'' = Some []) \<longrightarrow>
         (\<forall>v p. capped_limit rt (member (tool_arguments req) ''limit'') = Inr v \<and>
                cursor_param rt (member (tool_arguments req) ''cursor'') = Inr p \<longrightarrow>
            issued (snd (mcp_handler rt req s)) =
              issued s @
              [\<lparr>url = ''https://slack.com/api/conversations.list'', verb = ''GET'',
                query = [(''types'', ''public_channel,private_channel''),
                         (''exclude_archived'', ''true''),
                         (''limit'', jsnum_toString rt v), (''team_id'', team)] @ p,
                call_headers = [(''Authorization'', ''Bearer '' @ tok),
                                (''Content-Type'', ''application/json'')],
                call_body = None\<rparr>]) \<and>
         (\<forall>e. capped_limit rt (member (tool_arguments req) ''limit'') = Inl e \<or>
               cursor_param rt (member (tool_arguments req) ''cursor'') = Inl e \<longrightarrow>
            issued (snd (mcp_handler rt req s)) = issued s)))"
proof -
  have code: "(\<exists>m. rpc_error (payload (fst (mcp_handler rt req s))) =
        Some \<lparr>code = - 32602, message = m\<rparr>) \<longleftrightarrow>
      (opt_prop (body req) ''method'' = Some (JStr ''tools/call'') \<and>
       (headers req ''x-slack-bot-token'' = None \<or> headers req ''x-slack-bot-token'' = Some [] \<or>
        headers req ''x-slack-team-id'' = None \<or> headers req ''x-slack-team-id'' = Some []))"
    unfolding handler_error_code no_credentials ..
  have args: "tool_arguments req =
     (if truthy_val (member (tool_params req) ''arguments'')
      then the (member (tool_params req) ''arguments'') else JObj [])"
    by (simp add: tool_arguments_def or_else_def truthy_val_def split: option.splits)
  have undef: "to_String rt None = Inr ''undefined''"
    by (simp add: to_String_def)
  have ten: "limit_toString rt (default_param None (JNum 10)) = Inr (number_toString rt 10)"
    by (simp add: default_param_def)
  have hundred: "capped_limit rt None = Inr (Fin 100)"
    by (simp add: capped_limit_def default_param_def)
  have nocursor: "cursor_param rt None = Inr []"
    by (simp add: cursor_param_def truthy_val_def)
  note g = get_prop_not_null [OF tool_arguments_not_null]
  note run = handler_issued received_issued switch_tool_def g fetch_built_def fetch_issued
    get_call_def post_call_def client_of_def new_SlackClient_def
  show ?thesis
    apply (intro conjI)
          apply (rule code)
         apply (rule args)
        apply (rule undef)
       apply (rule ten)
      apply (rule hundred)
     apply (rule nocursor)
    apply (intro impI conjI allI; (elim conjE)?)
                  apply (simp add: known_tool_result)
                 apply (simp add: known_tool_result)
                apply (erule (2) known_tool_result [THEN conjunct2, THEN conjunct2])
               apply (simp add: run postMessage_def)
              apply (simp add: run postReply_def)
             apply (simp add: run addReaction_def)
            apply (simp add: run getChannelHistory_def history_call_def)
           apply (erule disjE; simp add: run getChannelHistory_def history_call_def split: sum.splits)
          apply (simp add: run getThreadReplies_def replies_call_def)
         apply (erule disjE; simp add: run getThreadReplies_def replies_call_def split: sum.splits)
        apply (simp add: run getUsers_def users_call_def)
       apply (erule disjE; simp add: run getUsers_def users_call_def split: sum.splits)
      apply (simp add: run getUserProfile_def profile_call_def)
     apply (simp add: run getUserProfile_def profile_call_def)
    apply (erule disjE; simp add: run getChannels_def list_call_def)
    apply (erule disjE; erule disjE; simp add: run getChannels_def list_call_def split: sum.splits)
    done
qed

theorem C10_arguments_not_validated_witness:
  "opt_prop (body (mcp_request [(''x-slack-bot-token'', ''xoxb-1''), (''x-slack-team-id'', ''T1'')]
       (JObj [(''method'', JStr ''tools/call''), (''id'', JNum 9),
              (''params'', JObj [(''name'', JStr ''slack_post_message'')])]))) ''method'' =
     Some (JStr ''tools/call'') \<and>
   slack_credentials (mcp_request [(''x-slack-bot-token'', ''xoxb-1''), (''x-slack-team-id'', ''T1'')]
       (JObj [(''method'', JStr ''tools/call''), (''id'', JNum 9),
              (''params'', JObj [(''name'', JStr ''slack_post_message'')])])) =
     Some (''xoxb-1'', ''T1'') \<and>
   tool_name (mcp_request [(''x-slack-bot-token'', ''xoxb-1''), (''x-slack-team-id'', ''T1'')]
       (JObj [(''method'', JStr ''tools/call''), (''id'', JNum 9),
              (''params'', JObj [(''name'', JStr ''slack_post_message'')])])) =
     Some (JStr ''slack_post_message'') \<and>
   tool_arguments (mcp_request [(''x-slack-bot-token'', ''xoxb-1''), (''x-slack-team-id'', ''T1'')]
       (JObj [(''method'', JStr ''tools/call''), (''id'', JNum 9),
              (''params'', JObj [(''name'', JStr ''slack_post_message'')])])) = JObj [] \<and>
   issued (snd (mcp_handler scripted
     (mcp_request [(''x-slack-bot-token'', ''xoxb-1''), (''x-slack-team-id'', ''T1'')]
       (JObj [(''method'', JStr ''tools/call''), (''id'', JNum 9),
              (''params'', JObj [(''name'', JStr ''slack_post_message'')])]))
     (fresh [Inr (JObj [(''ok'', JBool False), (''error'', JStr ''invalid_arguments'')])]))) =
     [\<lparr>url = ''https://slack.com/api/chat.postMessage'', verb = ''POST'', query = [],
       call_headers = [(''Authorization'', ''Bearer xoxb-1''),
                       (''Content-Type'', ''application/json'')],
       call_body = Some [(''channel'', None), (''text'', None)]\<rparr>] \<and>
   rpc_error (payload (fst (mcp_handler scripted
     (mcp_request [(''x-slack-bot-token'', ''xoxb-1''), (''x-slack-team-id'', ''T1'')]
       (JObj [(''method'', JStr ''tools/call''), (''id'', JNum 9),
              (''params'', JObj [(''name'', JStr ''slack_post_message'')])]))
     (fresh [Inr (JObj [(''ok'', JBool False), (''error'', JStr ''invalid_arguments'')])])))) = None"
proof -
  let ?req = "mcp_request [(''x-slack-bot-token'', ''xoxb-1''), (''x-slack-team-id'', ''T1'')]
       (JObj [(''method'', JStr ''tools/call''), (''id'', JNum 9),
              (''params'', JObj [(''name'', JStr ''slack_post_message'')])])"
  let ?s = "fresh [Inr (JObj [(''ok'', JBool False), (''error'', JStr ''invalid_arguments'')])]"
  have p: "tool_params ?req = JObj [(''name'', JStr ''slack_post_message'')]"
    by (simp add: tool_params_def mcp_request_def opt_prop_def or_else_def)
  have a: "tool_arguments ?req = JObj []"
    by (simp add: tool_arguments_def p or_else_def)
  have m: "opt_prop (body ?req) ''method'' = Some (JStr ''tools/call'')"
    by (simp add: mcp_request_def opt_prop_def)
  have c: "slack_credentials ?req = Some (''xoxb-1'', ''T1'')"
    by (simp add: mcp_request_def slack_credentials_def)
  have n: "tool_name ?req = Some (JStr ''slack_post_message'')"
    by (simp add: tool_name_def p)
  have mc: "opt_prop (body ?req) ''method'' = Some (JStr ''tools/call'') \<and>
      slack_credentials ?req = Some (''xoxb-1'', ''T1'')"
    by (intro conjI) (rule m c)+
  have i: "issued ?s = []"
    by (simp add: fresh_def)
  note tools = C10_arguments_not_validated [of scripted ?req ?s "''xoxb-1''" "''T1''",
      THEN conjunct2, THEN conjunct2, THEN conjunct2, THEN conjunct2, THEN conjunct2,
      THEN conjunct2, THEN mp, OF mc]
  note result = tools [THEN conjunct1, rule_format, OF n]
  note posted = tools [THEN conjunct2, THEN conjunct1, THEN mp, OF n]
  have "issued (snd (mcp_handler scripted ?req ?s)) =
     [\<lparr>url = ''https://slack.com/api/chat.postMessage'', verb = ''POST'', query = [],
       call_headers = [(''Authorization'', ''Bearer xoxb-1''),
                       (''Content-Type'', ''application/json'')],
       call_body = Some [(''channel'', None), (''text'', None)]\<rparr>]"
    using posted by (simp add: a i)
  moreover have "rpc_error (payload (fst (mcp_handler scripted ?req ?s))) = None"
    using result by simp
  ultimately show ?thesis
    using m c n a by (intro conjI)
qed

text \<open>
  C10, as stated, fails for a Slack credential header that is present and empty, which
  is answered with -32602 as an absent one is; and \<^verbatim>\<open>slack_get_channel_history\<close> called
  without its required \<^verbatim>\<open>channel_id\<close> and with \<^verbatim>\<open>limit: null\<close> issues no upstream request,
  \<^verbatim>\<open>limit.toString()\<close> throwing while the request is built.
\<close>

theorem C10_empty_header_counterexample:
  "headers (mcp_request [(''x-slack-bot-token'', []), (''x-slack-team-id'', ''T1'')]
       (JObj [(''method'', JStr ''tools/call''), (''id'', JNum 9),
              (''params'', JObj [(''name'', JStr ''slack_post_message'')])]))
     ''x-slack-bot-token'' = Some [] \<and>
   fst (mcp_handler scripted
     (mcp_request [(''x-slack-bot-token'', []), (''x-slack-team-id'', ''T1'')]
       (JObj [(''method'', JStr ''tools/call''), (''id'', JNum 9),
              (''params'', JObj [(''name'', JStr ''slack_post_message'')])])) (fresh [])) =
     \<lparr>status = 200,
      payload = \<lparr>jsonrpc = ''2.0'', rpc_result = None,
                 rpc_error = Some \<lparr>code = - 32602, message = missing_credentials\<rparr>,
                 rpc_id = Some (JNum 9)\<rparr>\<rparr> \<and>
   mcp_handler scripted
     (mcp_request [(''x-slack-bot-token'', ''xoxb-1''), (''x-slack-team-id'', ''T1'')]
       (JObj [(''method'', JStr ''tools/call''), (''id'', JNum 9),
              (''params'', JObj [(''name'', JStr ''slack_get_channel_history''),
                                 (''arguments'', JObj [(''limit'', JNull)])])])) (fresh []) =
     (\<lparr>status = 200,
       payload = \<lparr>jsonrpc = ''2.0'',
                  rpc_result = Some (Tool \<lparr>content = [\<lparr>item_type = ''text'',
                     item_text = JSON_stringify
                       (JObj [(''error'', JStr (err_message (cannot_read ''null'' ''toString''))),
                              (''status'', JStr ''failed'')])\<rparr>]\<rparr>),
                  rpc_error = None, rpc_id = Some (JNum 9)\<rparr>\<rparr>,
      \<lparr>upstream = [], issued = [],
       console =
         [(Console_log,
           [Text ''Received MCP request:'',
            Json_text (Some (JObj [(''method'', JStr ''tools/call''), (''id'', JNum 9),
              (''params'', JObj [(''name'', JStr ''slack_get_channel_history''),
                                 (''arguments'', JObj [(''limit'', JNull)])])]))]),
          (Console_error,
           [Text ''Error executing tool slack_get_channel_history:'',
            Thrown (cannot_read ''null'' ''toString'')])]\<rparr>)"
  by (simp add: mcp_handler_def mcp_try_def mcp_request_def slack_credentials_def get_prop_def
      opt_prop_def or_else_def handleToolCall_def switch_tool_def to_String_def
      getChannelHistory_def history_call_def fetch_built_def default_param_def
      error_text_def json_error_def json_result_def console_out_def fresh_def cannot_read_def
      text_content_def failed_payload_def)

end
